theory Spec2Isabelle
  imports Main
begin

section \<open>Strings and JavaScript truthiness\<close>

text \<open>
  The orchestrator is the React component \<open>Home\<close> (page.tsx) with the panels
  \<open>ChatPanel\<close> and \<open>LeftPanel\<close>. JavaScript strings are modelled as
  \<^typ>\<open>string\<close>, an optional property (\<open>undefined\<close> or \<open>null\<close>) as
  an \<^typ>\<open>'a option\<close>. A string is truthy iff it is present and not empty; an
  object (a \<open>Uint8Array\<close>, a record, an array) is truthy iff it is present.
\<close>

definition truthy_str :: "string option \<Rightarrow> bool" where
  "truthy_str s = (case s of None \<Rightarrow> False | Some v \<Rightarrow> v \<noteq> [])"

text \<open>\<open>s || d\<close> on an optional string.\<close>

definition str_or :: "string option \<Rightarrow> string \<Rightarrow> string" where
  "str_or s d = (case s of None \<Rightarrow> d | Some v \<Rightarrow> (if v = [] then d else v))"

text \<open>\<open>n || 0\<close> on an optional count.\<close>

definition num_or_zero :: "nat option \<Rightarrow> nat" where
  "num_or_zero n = (case n of None \<Rightarrow> 0 | Some k \<Rightarrow> k)"

text \<open>Template-string rendering of a non-negative integer: its decimal digits.\<close>

definition digit_char :: "nat \<Rightarrow> char" where
  "digit_char d = ''0123456789'' ! d"

function show_nat :: "nat \<Rightarrow> string" where
  "show_nat n = (if n < 10 then [digit_char n] else show_nat (n div 10) @ [digit_char (n mod 10)])"
  by pat_completeness auto
termination
  by (relation "measure (\<lambda>n. n)") auto

declare show_nat.simps [simp del]

text \<open>\<open>f.replace(/\*\*/g, '')\<close>: every non-overlapping \<open>**\<close>, scanned from
  the left, is removed.\<close>

fun strip_emphasis :: "string \<Rightarrow> string" where
  "strip_emphasis (a # b # cs) =
     (if a = CHR ''*'' \<and> b = CHR ''*'' then strip_emphasis cs
      else a # strip_emphasis (b # cs))"
| "strip_emphasis cs = cs"

text \<open>\<open>xs.join(sep)\<close>.\<close>

fun join :: "string \<Rightarrow> string list \<Rightarrow> string" where
  "join sep [] = []"
| "join sep [x] = x"
| "join sep (x # y # ys) = x @ sep @ join sep (y # ys)"

text \<open>
  \<open>input.trim()\<close>. A character of the model is a code unit below 256. Of these,
  \<open>String.prototype.trim\<close> strips the space, the tab, the line feed, the vertical
  tab, the form feed, the carriage return and the no-break space (U+00A0, 160); the
  rest of its white space lies above 255 and does not occur in the model's strings.
\<close>

definition is_space :: "char \<Rightarrow> bool" where
  "is_space c = (c = CHR '' '' \<or> of_char c \<in> {9::nat, 10, 11, 12, 13, 160})"

definition trim :: "string \<Rightarrow> string" where
  "trim s = rev (dropWhile is_space (rev (dropWhile is_space s)))"

section \<open>Types (types/index.ts)\<close>

datatype field_type = TextField | Checkbox | Dropdown | Radio

record FormField =
  field_id :: string
  field_kind :: field_type
  page :: nat
  label_context :: string
  current_value :: "string option"
  options :: "string list option"

datatype log_type = Thinking | ToolCall | ToolResult | StatusEntry | CompleteEntry | ErrorEntry

record AgentLogEntry =
  entry_id :: string
  entry_type :: log_type
  entry_timestamp :: nat
  entry_content :: string
  entry_details :: "string option"

datatype role = User | Assistant | System

datatype msg_status = Pending | Streaming | Complete | Error

record ChatMessage =
  msg_id :: string
  msg_role :: role
  msg_content :: string
  msg_timestamp :: nat
  msg_status :: "msg_status option"
  agentLog :: "AgentLogEntry list option"

text \<open>A JSON value of an edits record (\<open>Record<string, unknown>\<close>), and the record
  itself as an association list; \<open>Object.keys\<close> lists each key once.\<close>

datatype jvalue = JNull | JBool bool | JNum int | JStr string

type_synonym edits = "(string \<times> jvalue) list"

definition object_keys :: "edits \<Rightarrow> string list" where
  "object_keys e = remdups (map fst e)"

datatype event_type =
  Init | StatusEv | ToolUse | UserEv | AssistantEv | CompleteEv | PdfReady | ErrorEv
  | OtherEv string

record StreamEvent =
  ev_type :: event_type
  ev_message :: "string option"
  ev_error :: "string option"
  ev_text :: "string option"
  ev_friendly :: "string list option"
  applied_count :: "nat option"
  applied_edits :: "edits option"
  session_id :: "string option"
  user_session_id :: "string option"
  pdf_bytes :: "string option"

datatype PdfDisplayMode = Original | Filled

section \<open>createLogEntry (page.tsx)\<close>

text \<open>
  \<open>createLogEntry\<close> draws an id (\<open>generateId()\<close>) and a time stamp
  (\<open>new Date()\<close>) first; they are the first two arguments here. The result
  \<open>null\<close> is \<open>None\<close>.
\<close>

definition mk_entry :: "string \<Rightarrow> nat \<Rightarrow> log_type \<Rightarrow> string \<Rightarrow> string option \<Rightarrow> AgentLogEntry" where
  "mk_entry i t k c d =
     \<lparr>entry_id = i, entry_type = k, entry_timestamp = t, entry_content = c, entry_details = d\<rparr>"

definition createLogEntry :: "string \<Rightarrow> nat \<Rightarrow> StreamEvent \<Rightarrow> AgentLogEntry option" where
  "createLogEntry i t event =
     (case ev_type event of
        Init \<Rightarrow> Some (mk_entry i t StatusEntry (str_or (ev_message event) ''Initializing agent...'') None)
      | StatusEv \<Rightarrow> Some (mk_entry i t StatusEntry (str_or (ev_message event) ''Processing...'') None)
      | ToolUse \<Rightarrow>
          (case ev_friendly event of
             None \<Rightarrow> None
           | Some fr \<Rightarrow>
               if length fr > 0 then
                 (let cleanedActions = map strip_emphasis fr in
                  if length fr > 1 then
                    Some (mk_entry i t ToolCall
                            (''Filling '' @ show_nat (length fr) @ '' fields'')
                            (Some (join '', '' cleanedActions)))
                  else Some (mk_entry i t ToolCall (hd cleanedActions) None))
               else None)
      | UserEv \<Rightarrow>
          (case ev_friendly event of
             None \<Rightarrow> None
           | Some fr \<Rightarrow>
               if length fr > 0 then Some (mk_entry i t ToolResult (join '', '' fr) None)
               else None)
      | AssistantEv \<Rightarrow>
          (case ev_text event of
             None \<Rightarrow> None
           | Some tx \<Rightarrow>
               if tx \<noteq> [] then
                 Some (mk_entry i t Thinking ''Agent thinking...''
                         (Some (take 100 tx @ (if length tx > 100 then ''...'' else []))))
               else None)
      | CompleteEv \<Rightarrow>
          Some (mk_entry i t CompleteEntry
                  (''Completed - filled '' @ show_nat (num_or_zero (applied_count event)) @ '' fields'')
                  None)
      | ErrorEv \<Rightarrow> Some (mk_entry i t ErrorEntry (str_or (ev_error event) ''An error occurred'') None)
      | PdfReady \<Rightarrow> Some (mk_entry i t CompleteEntry ''Form filled successfully'' None)
      | OtherEv _ \<Rightarrow> None)"

section \<open>The component state of \<open>Home\<close> and its collaborators\<close>

type_synonym bytes = "nat list"

text \<open>A browser \<open>File\<close> handle, by its name.\<close>

type_synonym file_handle = string

record ContextFile =
  cf_filename :: string
  cf_content :: string
  was_parsed :: bool

text \<open>The \<open>Session\<close> snapshot handed to \<open>saveSessionToStorage\<close>.\<close>

record Session =
  snap_id :: string
  originalPdf :: "file_handle option"
  snap_filledPdfBytes :: "bytes option"
  snap_fields :: "FormField list"
  snap_messages :: "ChatMessage list"
  snap_isProcessing :: bool

text \<open>The argument object of \<open>streamAgentFill\<close>.\<close>

record FillArgs =
  arg_file :: file_handle
  instructions :: string
  arg_filledPdfBytes :: "bytes option"
  isContinuation :: bool
  previousEdits :: "edits option"
  resumeSessionId :: "string option"
  arg_userSessionId :: "string option"

text \<open>
  A thrown value is an \<open>Error\<close> with its message, or something else. An agent
  stream is the finite sequence of events the async iterator yields and the way it
  ends: it closes, or the iterator throws (a transport or decoding fault).
\<close>

datatype fault = ErrorObj string | NonError

datatype stream_end = EndOfStream | Throws fault

record agent_stream =
  stream_events :: "StreamEvent list"
  stream_end :: stream_end

record AnalyzeResponse =
  an_success :: bool
  an_message :: string
  an_fields :: "FormField list"
  field_count :: nat

datatype parse_mode = CostEffective | AgenticPlus

datatype parse_event_type = ProgressEv | ParseCompleteEv | OtherParseEv

record ParseProgress =
  pp_current :: nat
  pp_total :: nat
  pp_filename :: string
  pp_status :: string
  pp_error :: "string option"

record ParseResult =
  pr_filename :: string
  pr_content :: "string option"
  pr_parsed :: bool
  pr_error :: "string option"

record ParseEvent =
  pe_type :: parse_event_type
  pe_current :: "nat option"
  pe_total :: "nat option"
  pe_filename :: "string option"
  pe_status :: "string option"
  pe_error :: "string option"
  pe_results :: "ParseResult list option"

record parse_stream =
  parse_events :: "ParseEvent list"
  parse_end :: stream_end

text \<open>The outcome of a promise: it rejects, or it fulfils with a value.\<close>

datatype 'a settled = Rejected | Fulfilled 'a

text \<open>The snapshot \<open>loadSessionFromStorage\<close> returns.\<close>

record StoredSession =
  st_fields :: "FormField list option"
  st_messages :: "ChatMessage list option"
  st_userSessionId :: "string option"

text \<open>
  What the component takes from outside. The modules lib/api.ts and lib/session.ts
  are not part of the sources at hand, so their functions are parameters: the
  \<open>k\<close>-th draw of \<open>generateId()\<close> and of the clock, \<open>hexToBytes\<close>,
  the agent stream the backend delivers for the \<open>n\<close>-th opened stream and its
  arguments, the analysis result, the parse stream, the stored snapshot and the three
  restore fetches. The last field is React's schedule: \<open>rendered k\<close> says whether
  React has run the pending state updaters (it has rendered \<open>Home\<close>, or it ran the
  updater at once because nothing was pending) between the event folded at draw
  \<open>k\<close> and the moment the loop resumes.
\<close>

record env =
  generateId :: "nat \<Rightarrow> string"
  now :: "nat \<Rightarrow> nat"
  hexToBytes :: "string \<Rightarrow> bytes"
  streamAgentFill :: "nat \<Rightarrow> FillArgs \<Rightarrow> agent_stream"
  analyzePdf :: "file_handle \<Rightarrow> fault + AnalyzeResponse"
  streamParseFiles :: "file_handle list \<Rightarrow> parse_mode \<Rightarrow> string \<Rightarrow> parse_stream"
  loadSessionFromStorage :: "string \<Rightarrow> StoredSession option"
  getSessionPdf :: "string \<Rightarrow> bytes option settled"
  getSessionOriginalPdf :: "string \<Rightarrow> bytes option settled"
  getSessionContextFiles :: "string \<Rightarrow> ContextFile list option settled"
  rendered :: "nat \<Rightarrow> bool"

text \<open>
  The \<open>useState\<close> cells of \<open>Home\<close> (\<open>file\<close> is \<open>pdfFile\<close> and
  \<open>fields\<close> is \<open>formFields\<close> here), the session id in the URL, and three
  fields that record effects: the argument objects of the streams opened so far, the
  calls of \<open>saveSessionToStorage\<close> made by a handler itself (the effect that saves
  after a render is not one of them), and the number of ids drawn so far. State
  setters are applied in program order, and a handler reads the state of the render
  it was created in. One setter is not called by the handler but by a state updater:
  \<open>setStatusMessage(logEntry.content)\<close> sits inside the function handed to
  \<open>setMessages\<close>, and React calls that function when it runs the pending
  updaters, which may be after later setter calls of the handler.
  \<open>deferredStatus\<close> holds the text such an updater will set once React runs it.
\<close>

record home =
  sessionId :: string
  pdfFile :: "file_handle option"
  formFields :: "FormField list"
  messages :: "ChatMessage list"
  originalPdfBytes :: "bytes option"
  filledPdfBytes :: "bytes option"
  pdfDisplayMode :: PdfDisplayMode
  isAnalyzing :: bool
  isProcessing :: bool
  statusMessage :: string
  deferredStatus :: "string option"
  appliedEdits :: "edits option"
  agentSessionId :: "string option"
  userSessionId :: "string option"
  contextFiles :: "ContextFile list"
  isUploadingContext :: bool
  parseProgress :: "ParseProgress option"
  urlSessionId :: "string option"
  opened :: "FillArgs list"
  saved :: "(Session \<times> string option) list"
  draws :: nat

text \<open>
  Modelled from the spec: \<open>createMessage\<close> lives in lib/session.ts, which is
  missing. A Message has an id, a role, a content, a time stamp and a status; a user
  message is created with status complete, the placeholder with the status given.
\<close>

definition createMessage :: "env \<Rightarrow> nat \<Rightarrow> role \<Rightarrow> string \<Rightarrow> msg_status option \<Rightarrow> ChatMessage" where
  "createMessage e k r c st =
     \<lparr>msg_id = generateId e k, msg_role = r, msg_content = c, msg_timestamp = now e k,
      msg_status = Some (case st of None \<Rightarrow> Complete | Some x \<Rightarrow> x), agentLog = None\<rparr>"

section \<open>One turn: \<open>handleSendMessage\<close>\<close>

text \<open>The local variables of one call of \<open>handleSendMessage\<close>.\<close>

record turn_acc =
  finalContent :: string
  appliedCount :: nat
  newAppliedEdits :: "edits option"
  newAgentSessionId :: "string option"
  newUserSessionId :: "string option"
  newFilledPdfBytes :: "bytes option"

definition acc0 :: turn_acc where
  "acc0 = \<lparr>finalContent = [], appliedCount = 0, newAppliedEdits = None,
            newAgentSessionId = None, newUserSessionId = None, newFilledPdfBytes = None\<rparr>"

text \<open>
  A turn whose stream is open: the state the handler closed over (the values of the
  render it was created in), the placeholder's id, the continuation flag, the local
  variables, the events not yet delivered and the way the stream will end.
\<close>

record turn =
  t_closure :: home
  t_assistant :: string
  t_cont :: bool
  t_acc :: turn_acc
  t_pending :: "StreamEvent list"
  t_end :: stream_end

text \<open>
  React runs the pending updaters. The status text an updater sets comes after every
  \<open>setStatusMessage\<close> the handler called before, so it is the one that stays.
\<close>

definition render :: "home \<Rightarrow> home" where
  "render s =
     (case deferredStatus s of
        None \<Rightarrow> s
      | Some c \<Rightarrow> s\<lparr>statusMessage := c, deferredStatus := None\<rparr>)"

text \<open>The updater of \<open>setMessages\<close> inside the loop, for one message.\<close>

definition update_log :: "string \<Rightarrow> AgentLogEntry option \<Rightarrow> ChatMessage \<Rightarrow> ChatMessage" where
  "update_log aid logEntry m =
     (if msg_id m \<noteq> aid then m
      else m\<lparr>agentLog :=
             (case logEntry of
                Some en \<Rightarrow> Some ((case agentLog m of None \<Rightarrow> [] | Some l \<Rightarrow> l) @ [en])
              | None \<Rightarrow> agentLog m)\<rparr>)"

text \<open>The branch \<open>event.type === 'complete'\<close> of the loop body.\<close>

definition on_complete :: "bool \<Rightarrow> StreamEvent \<Rightarrow> turn_acc \<Rightarrow> turn_acc" where
  "on_complete cont event a =
     (let cnt = num_or_zero (applied_count event);
          ed = (case applied_edits event of Some x \<Rightarrow> Some x | None \<Rightarrow> newAppliedEdits a);
          ag = (if truthy_str (session_id event) then session_id event else newAgentSessionId a);
          us = (if truthy_str (user_session_id event) then user_session_id event
                else newUserSessionId a);
          totalEdits = (case ed of Some x \<Rightarrow> length (object_keys x) | None \<Rightarrow> cnt)
      in a\<lparr>finalContent :=
             (if cont then ''Updated '' @ show_nat cnt @ '' fields. Total: '' @ show_nat totalEdits
                           @ '' fields filled.''
              else ''Successfully filled '' @ show_nat cnt @ '' form fields.''),
           appliedCount := cnt, newAppliedEdits := ed, newAgentSessionId := ag,
           newUserSessionId := us\<rparr>)"

text \<open>The branch \<open>event.type === 'pdf_ready' && event.pdf_bytes\<close>.\<close>

definition on_pdf_ready :: "env \<Rightarrow> StreamEvent \<Rightarrow> home \<times> turn_acc \<Rightarrow> home \<times> turn_acc" where
  "on_pdf_ready e event st =
     (case pdf_bytes event of
        None \<Rightarrow> st
      | Some hex \<Rightarrow>
          if hex = [] then st
          else (let bs = hexToBytes e hex
                in ((fst st)\<lparr>filledPdfBytes := Some bs, pdfDisplayMode := Filled\<rparr>,
                    (snd st)\<lparr>newFilledPdfBytes := Some bs\<rparr>)))"

text \<open>
  The loop body for one event. The updater is handed to \<open>setMessages\<close>; the
  status text it will set is held back until React runs it, which \<open>rendered\<close>
  says it does before the loop resumes, or not.
\<close>

definition fold_event :: "env \<Rightarrow> string \<Rightarrow> bool \<Rightarrow> StreamEvent \<Rightarrow> home \<times> turn_acc \<Rightarrow> home \<times> turn_acc" where
  "fold_event e aid cont event st =
     (let s = fst st; a = snd st;
          logEntry = createLogEntry (generateId e (draws s)) (now e (draws s)) event;
          s1 = s\<lparr>messages := map (update_log aid logEntry) (messages s),
                 deferredStatus :=
                   (case logEntry of
                      Some en \<Rightarrow> if aid \<in> set (map msg_id (messages s))
                                 then Some (entry_content en) else deferredStatus s
                    | None \<Rightarrow> deferredStatus s),
                 draws := draws s + 1\<rparr>;
          a1 = (if ev_type event = CompleteEv then on_complete cont event a else a);
          st2 = (if ev_type event = PdfReady then on_pdf_ready e event (s1, a1) else (s1, a1));
          a3 = (if ev_type event = ErrorEv
                then (snd st2)\<lparr>finalContent := str_or (ev_error event) ''An error occurred''\<rparr>
                else snd st2)
      in (if rendered e (draws s) then render (fst st2) else fst st2, a3))"

text \<open>The \<open>for await\<close> loop over the events the stream yields.\<close>

fun consume :: "env \<Rightarrow> string \<Rightarrow> bool \<Rightarrow> StreamEvent list \<Rightarrow> home \<times> turn_acc \<Rightarrow> home \<times> turn_acc" where
  "consume e aid cont [] st = st"
| "consume e aid cont (ev # evs) st = consume e aid cont evs (fold_event e aid cont ev st)"

text \<open>After the loop, when the stream closed: adopt, save, mark complete.\<close>

definition mark_complete :: "string \<Rightarrow> turn_acc \<Rightarrow> ChatMessage \<Rightarrow> ChatMessage" where
  "mark_complete aid a m =
     (if msg_id m = aid
      then m\<lparr>msg_status := Some Complete,
             msg_content := (if finalContent a \<noteq> [] then finalContent a
                             else ''Filled '' @ show_nat (appliedCount a) @ '' fields.'')\<rparr>
      else m)"

definition finalize_ok :: "home \<Rightarrow> string \<Rightarrow> turn_acc \<Rightarrow> home \<Rightarrow> home" where
  "finalize_ok c aid a s =
     (let s1 = (case newAppliedEdits a of Some x \<Rightarrow> s\<lparr>appliedEdits := Some x\<rparr> | None \<Rightarrow> s);
          s2 = (if truthy_str (newAgentSessionId a)
                then s1\<lparr>agentSessionId := newAgentSessionId a\<rparr> else s1);
          s3 = (if truthy_str (newUserSessionId a)
                then s2\<lparr>userSessionId := newUserSessionId a,
                        saved := saved s2 @
                          [(\<lparr>snap_id = sessionId c, originalPdf = pdfFile c,
                             snap_filledPdfBytes =
                               (case newFilledPdfBytes a of Some b \<Rightarrow> Some b
                                | None \<Rightarrow> filledPdfBytes c),
                             snap_fields = formFields c, snap_messages = messages c,
                             snap_isProcessing = False\<rparr>,
                            newUserSessionId a)]\<rparr>
                else s2)
      in s3\<lparr>messages := map (mark_complete aid a) (messages s3)\<rparr>)"

text \<open>The \<open>catch\<close> block. The id and the time stamp of the synthetic entry are
  drawn inside the updater; the model draws once.\<close>

definition fault_message :: "fault \<Rightarrow> string" where
  "fault_message f = (case f of ErrorObj m \<Rightarrow> m | NonError \<Rightarrow> ''Unknown error'')"

definition mark_error :: "AgentLogEntry \<Rightarrow> string \<Rightarrow> string \<Rightarrow> ChatMessage \<Rightarrow> ChatMessage" where
  "mark_error en aid errorMessage m =
     (if msg_id m = aid
      then m\<lparr>msg_status := Some Error, msg_content := ''Error: '' @ errorMessage,
             agentLog := Some ((case agentLog m of None \<Rightarrow> [] | Some l \<Rightarrow> l) @ [en])\<rparr>
      else m)"

definition finalize_err :: "env \<Rightarrow> string \<Rightarrow> fault \<Rightarrow> home \<Rightarrow> home" where
  "finalize_err e aid f s =
     (let errorMessage = fault_message f;
          en = mk_entry (generateId e (draws s)) (now e (draws s)) ErrorEntry errorMessage None
      in s\<lparr>messages := map (mark_error en aid errorMessage) (messages s),
           draws := draws s + 1\<rparr>)"

text \<open>The end of the stream, with the \<open>finally\<close> block, and the render that
  follows the handler's return.\<close>

definition end_turn :: "env \<Rightarrow> turn \<Rightarrow> home \<Rightarrow> home" where
  "end_turn e t s =
     (let s1 = (case t_end t of
                  EndOfStream \<Rightarrow> finalize_ok (t_closure t) (t_assistant t) (t_acc t) s
                | Throws f \<Rightarrow> finalize_err e (t_assistant t) f s)
      in render (s1\<lparr>isProcessing := False, statusMessage := []\<rparr>))"

text \<open>\<open>Boolean(agentSessionId && filledPdfBytes)\<close>.\<close>

definition is_continuation :: "home \<Rightarrow> bool" where
  "is_continuation s = (truthy_str (agentSessionId s) \<and> filledPdfBytes s \<noteq> None)"

text \<open>The argument object handed to \<open>streamAgentFill\<close>.\<close>

definition fill_args :: "home \<Rightarrow> file_handle \<Rightarrow> string \<Rightarrow> FillArgs" where
  "fill_args s f content =
     \<lparr>arg_file = f, instructions = content,
      arg_filledPdfBytes = (if is_continuation s then filledPdfBytes s else None),
      isContinuation = is_continuation s, previousEdits = appliedEdits s,
      resumeSessionId = agentSessionId s, arg_userSessionId = userSessionId s\<rparr>"

text \<open>The placeholder: \<open>createMessage('assistant', '', 'streaming')\<close> with an empty
  agent log; \<open>k\<close> is the draw of its id.\<close>

definition placeholder :: "env \<Rightarrow> nat \<Rightarrow> ChatMessage" where
  "placeholder e k = (createMessage e k Assistant [] (Some Streaming))\<lparr>agentLog := Some []\<rparr>"

text \<open>
  The synchronous prefix of \<open>handleSendMessage\<close>, up to the opening of the stream.
  Without a file it appends a system message and returns; no turn starts.
\<close>

definition begin_turn :: "env \<Rightarrow> home \<Rightarrow> string \<Rightarrow> home \<times> turn option" where
  "begin_turn e s content =
     (case pdfFile s of
        None \<Rightarrow>
          (s\<lparr>messages := messages s @ [createMessage e (draws s) System ''Please upload a PDF first'' None],
             draws := draws s + 1\<rparr>, None)
      | Some f \<Rightarrow>
          (let userMessage = createMessage e (draws s) User content None;
               assistantMessage = placeholder e (draws s + 1);
               str = streamAgentFill e (length (opened s)) (fill_args s f content)
           in (s\<lparr>messages := messages s @ [userMessage, assistantMessage],
                  isProcessing := True, statusMessage := ''Starting agent...'',
                  opened := opened s @ [fill_args s f content], draws := draws s + 2\<rparr>,
               Some \<lparr>t_closure = s, t_assistant = msg_id assistantMessage,
                     t_cont = is_continuation s, t_acc = acc0,
                     t_pending = stream_events str, t_end = stream_end str\<rparr>)))"

text \<open>A started turn, run until its stream has ended.\<close>

definition run_turn :: "env \<Rightarrow> turn \<Rightarrow> home \<Rightarrow> home" where
  "run_turn e t s =
     (let r = consume e (t_assistant t) (t_cont t) (t_pending t) (s, t_acc t)
      in end_turn e (t\<lparr>t_acc := snd r, t_pending := []\<rparr>) (fst r))"

definition handleSendMessage :: "env \<Rightarrow> home \<Rightarrow> string \<Rightarrow> home" where
  "handleSendMessage e s content =
     (case begin_turn e s content of
        (s1, None) \<Rightarrow> s1
      | (s1, Some t) \<Rightarrow> run_turn e t s1)"

section \<open>File selection, reset and context files\<close>

definition handleFileSelect :: "env \<Rightarrow> home \<Rightarrow> file_handle option \<Rightarrow> home" where
  "handleFileSelect e s selectedFile =
     (case selectedFile of
        None \<Rightarrow>
          s\<lparr>pdfFile := None, formFields := [], originalPdfBytes := None, filledPdfBytes := None,
            pdfDisplayMode := Original, appliedEdits := None, agentSessionId := None,
            userSessionId := None, contextFiles := []\<rparr>
      | Some f \<Rightarrow>
          (let s1 = s\<lparr>pdfFile := Some f, originalPdfBytes := None, filledPdfBytes := None,
                      pdfDisplayMode := Original, appliedEdits := None, agentSessionId := None,
                      userSessionId := None, contextFiles := [], isAnalyzing := True\<rparr>;
               s2 = (case analyzePdf e f of
                       Inr result \<Rightarrow>
                         s1\<lparr>formFields := an_fields result,
                            messages := messages s1 @
                              [createMessage e (draws s1) System
                                 (if field_count result > 0
                                  then ''Detected '' @ show_nat (field_count result)
                                       @ '' fillable fields in the PDF''
                                  else ''No fillable form fields detected. Make sure this is a PDF with AcroForm fields.'')
                                 None],
                            draws := draws s1 + 1\<rparr>
                     | Inl flt \<Rightarrow>
                         s1\<lparr>messages := messages s1 @
                              [createMessage e (draws s1) System
                                 (''Error analyzing PDF: '' @ fault_message flt) None],
                            draws := draws s1 + 1\<rparr>)
           in s2\<lparr>isAnalyzing := False\<rparr>))"

text \<open>\<open>handleReset\<close> of LeftPanel, the "New Form" button.\<close>

definition handleReset :: "env \<Rightarrow> home \<Rightarrow> home" where
  "handleReset e s = (if \<not> isProcessing s then handleFileSelect e s None else s)"

text \<open>The loop of \<open>handleParseFiles\<close>: the progress indicator and the results
  collected so far.\<close>

definition parse_progress_of :: "ParseEvent \<Rightarrow> ParseProgress option" where
  "parse_progress_of ev =
     (if pe_type ev = ProgressEv \<and> pe_current ev \<noteq> None \<and> pe_total ev \<noteq> None
         \<and> truthy_str (pe_filename ev) \<and> truthy_str (pe_status ev)
      then Some \<lparr>pp_current = the (pe_current ev), pp_total = the (pe_total ev),
                 pp_filename = the (pe_filename ev), pp_status = the (pe_status ev),
                 pp_error = pe_error ev\<rparr>
      else None)"

definition parse_results_of :: "ParseEvent \<Rightarrow> ContextFile list" where
  "parse_results_of ev =
     (if pe_type ev = ParseCompleteEv
      then (case pe_results ev of
              None \<Rightarrow> []
            | Some rs \<Rightarrow>
                map (\<lambda>r. \<lparr>cf_filename = pr_filename r, cf_content = the (pr_content r),
                          was_parsed = pr_parsed r\<rparr>)
                  (filter (\<lambda>r. truthy_str (pr_content r) \<and> \<not> truthy_str (pr_error r)) rs))
      else [])"

fun parse_loop :: "ParseEvent list \<Rightarrow> home \<times> ContextFile list \<Rightarrow> home \<times> ContextFile list" where
  "parse_loop [] st = st"
| "parse_loop (ev # evs) st =
     parse_loop evs
       ((case parse_progress_of ev of
           Some p \<Rightarrow> (fst st)\<lparr>parseProgress := Some p\<rparr>
         | None \<Rightarrow> fst st),
        snd st @ parse_results_of ev)"

definition handleParseFiles :: "env \<Rightarrow> home \<Rightarrow> file_handle list \<Rightarrow> parse_mode \<Rightarrow> home" where
  "handleParseFiles e s files parseMode =
     (let s1 = s\<lparr>isUploadingContext := True, parseProgress := None\<rparr>;
          minted = generateId e (draws s) @ ''-'' @ show_nat (now e (draws s));
          currentUserSessionId =
            (if truthy_str (userSessionId s) then the (userSessionId s) else minted);
          s2 = (if truthy_str (userSessionId s) then s1
                else s1\<lparr>userSessionId := Some minted, draws := draws s + 1\<rparr>);
          str = streamParseFiles e files parseMode currentUserSessionId;
          r = parse_loop (parse_events str) (s2, []);
          s3 = (case parse_end str of
                  EndOfStream \<Rightarrow> (fst r)\<lparr>contextFiles := contextFiles (fst r) @ snd r\<rparr>
                | Throws flt \<Rightarrow>
                    (fst r)\<lparr>messages := messages (fst r) @
                              [createMessage e (draws (fst r)) System
                                 (''Error parsing files: '' @ fault_message flt) None],
                            draws := draws (fst r) + 1\<rparr>)
      in s3\<lparr>isUploadingContext := False, parseProgress := None\<rparr>)"

section \<open>Session initialisation and restore\<close>

text \<open>
  The effect that saves the session after a render in which one of its dependencies
  changed: the call of \<open>saveSessionToStorage\<close> it makes, if any. The agent
  session id is neither a dependency nor part of what is saved.
\<close>

definition save_effect :: "home \<Rightarrow> (Session \<times> string option) option" where
  "save_effect s =
     (if sessionId s \<noteq> []
      then Some (\<lparr>snap_id = sessionId s, originalPdf = pdfFile s,
                  snap_filledPdfBytes = filledPdfBytes s, snap_fields = formFields s,
                  snap_messages = messages s, snap_isProcessing = isProcessing s\<rparr>,
                 userSessionId s)
      else None)"

text \<open>\<open>Promise.all\<close> of three promises: it fulfils with the three values when all
  three fulfil, and rejects as soon as one rejects.\<close>

definition promise_all3 :: "'a settled \<Rightarrow> 'b settled \<Rightarrow> 'c settled \<Rightarrow> ('a \<times> 'b \<times> 'c) settled" where
  "promise_all3 p q r =
     (case p of
        Rejected \<Rightarrow> Rejected
      | Fulfilled a \<Rightarrow>
          (case q of
             Rejected \<Rightarrow> Rejected
           | Fulfilled b \<Rightarrow> (case r of Rejected \<Rightarrow> Rejected | Fulfilled c \<Rightarrow> Fulfilled (a, b, c))))"

text \<open>The \<open>then\<close> callback of the restore.\<close>

definition apply_fetched :: "bytes option \<times> bytes option \<times> ContextFile list option \<Rightarrow> home \<Rightarrow> home" where
  "apply_fetched r s =
     (let filledBytes = fst r; originalBytes = fst (snd r); contextFilesData = snd (snd r);
          s1 = (case filledBytes of
                  Some b \<Rightarrow> s\<lparr>filledPdfBytes := Some b, pdfDisplayMode := Filled\<rparr>
                | None \<Rightarrow> s);
          s2 = (case originalBytes of Some b \<Rightarrow> s1\<lparr>originalPdfBytes := Some b\<rparr> | None \<Rightarrow> s1)
      in (case contextFilesData of
            Some fs \<Rightarrow>
              s2\<lparr>contextFiles :=
                   map (\<lambda>f. \<lparr>cf_filename = cf_filename f, cf_content = cf_content f,
                             was_parsed = was_parsed f\<rparr>) fs\<rparr>
          | None \<Rightarrow> s2))"

text \<open>The state before the first effect runs; \<open>url\<close> is what
  \<open>getSessionIdFromUrl()\<close> returns.\<close>

definition home0 :: "string option \<Rightarrow> home" where
  "home0 url =
     \<lparr>sessionId = [], pdfFile = None, formFields = [], messages = [], originalPdfBytes = None,
      filledPdfBytes = None, pdfDisplayMode = Original, isAnalyzing = False,
      isProcessing = False, statusMessage = [], deferredStatus = None, appliedEdits = None,
      agentSessionId = None,
      userSessionId = None, contextFiles = [], isUploadingContext = False,
      parseProgress = None, urlSessionId = url, opened = [], saved = [], draws = 0\<rparr>"

text \<open>
  Modelled from the spec: \<open>createSession\<close> and \<open>setSessionIdInUrl\<close> live in
  lib/session.ts, which is missing. A session is created on a first visit with a
  fresh \<open>sessionId\<close> that is embedded in the URL; the id comes from the id supply.
\<close>

definition new_session :: "env \<Rightarrow> home \<Rightarrow> home" where
  "new_session e s =
     s\<lparr>sessionId := generateId e (draws s), urlSessionId := Some (generateId e (draws s)),
       draws := draws s + 1\<rparr>"

text \<open>The mount effect of \<open>Home\<close>.\<close>

definition initSession :: "env \<Rightarrow> home \<Rightarrow> home" where
  "initSession e s =
     (if truthy_str (urlSessionId s) then
        (case loadSessionFromStorage e (the (urlSessionId s)) of
           Some stored \<Rightarrow>
             (let s1 = s\<lparr>sessionId := the (urlSessionId s),
                         formFields := (case st_fields stored of Some x \<Rightarrow> x | None \<Rightarrow> []),
                         messages := (case st_messages stored of Some x \<Rightarrow> x | None \<Rightarrow> [])\<rparr>
              in if truthy_str (st_userSessionId stored) then
                   (let u = the (st_userSessionId stored);
                        s2 = s1\<lparr>userSessionId := Some u\<rparr>
                    in (case promise_all3 (getSessionPdf e u) (getSessionOriginalPdf e u)
                               (getSessionContextFiles e u) of
                          Fulfilled r \<Rightarrow> apply_fetched r s2
                        | Rejected \<Rightarrow> s2))
                 else s1)
         | None \<Rightarrow> new_session e s)
      else new_session e s)"

section \<open>The panels around the turn\<close>

text \<open>
  The application between user actions: the state of \<open>Home\<close>, the text in the
  chat input of \<open>ChatPanel\<close>, and the turns whose stream is open.
\<close>

record app =
  app_home :: home
  chat_input :: string
  inflight :: "turn list"

text \<open>The \<open>disabled\<close> property \<open>Home\<close> passes to \<open>ChatPanel\<close>.\<close>

definition disabled :: "home \<Rightarrow> bool" where
  "disabled s = (pdfFile s = None \<or> formFields s = [])"

text \<open>\<open>handleSubmit\<close> of ChatPanel; \<open>onSendMessage\<close> is \<open>handleSendMessage\<close>,
  which runs up to the opening of its stream.\<close>

definition handleSubmit :: "env \<Rightarrow> app \<Rightarrow> app" where
  "handleSubmit e a =
     (let s = app_home a in
      if trim (chat_input a) \<noteq> [] \<and> \<not> isProcessing s \<and> \<not> disabled s
      then (let r = begin_turn e s (trim (chat_input a))
            in a\<lparr>app_home := fst r, chat_input := [],
                 inflight := inflight a @ (case snd r of None \<Rightarrow> [] | Some t \<Rightarrow> [t])\<rparr>)
      else a)"

text \<open>One resumption of an open turn: the next event is folded, or the stream has
  ended and the turn is finalized.\<close>

definition turn_step :: "env \<Rightarrow> turn \<Rightarrow> home \<Rightarrow> home \<times> turn option" where
  "turn_step e t s =
     (case t_pending t of
        [] \<Rightarrow> (end_turn e t s, None)
      | ev # evs \<Rightarrow>
          (let r = fold_event e (t_assistant t) (t_cont t) ev (s, t_acc t)
           in (fst r, Some (t\<lparr>t_acc := snd r, t_pending := evs\<rparr>))))"

definition deliver :: "env \<Rightarrow> nat \<Rightarrow> app \<Rightarrow> app" where
  "deliver e i a =
     (if i < length (inflight a)
      then (let r = turn_step e (inflight a ! i) (app_home a)
            in a\<lparr>app_home := fst r,
                 inflight := (case snd r of
                                None \<Rightarrow> take i (inflight a) @ drop (Suc i) (inflight a)
                              | Some t \<Rightarrow> (inflight a)[i := t])\<rparr>)
      else a)"

text \<open>
  What can happen to the application: the user edits the chat input, submits it,
  presses "New Form", picks a file in the upload widget (rendered while no file and no
  PDF is held, disabled while processing), uploads context files, or the stream of an
  open turn delivers its next item.
\<close>

datatype action =
  TypeInput string | Submit | Deliver nat | ResetForm | SelectFile file_handle
  | ParseFiles "file_handle list" parse_mode

definition step :: "env \<Rightarrow> app \<Rightarrow> action \<Rightarrow> app" where
  "step e a act =
     (case act of
        TypeInput v \<Rightarrow> a\<lparr>chat_input := v\<rparr>
      | Submit \<Rightarrow> handleSubmit e a
      | Deliver i \<Rightarrow> deliver e i a
      | ResetForm \<Rightarrow> a\<lparr>app_home := handleReset e (app_home a)\<rparr>
      | SelectFile f \<Rightarrow>
          (let s = app_home a in
           if \<not> isProcessing s \<and> pdfFile s = None \<and> originalPdfBytes s = None
              \<and> filledPdfBytes s = None
           then a\<lparr>app_home := handleFileSelect e s (Some f)\<rparr> else a)
      | ParseFiles fs pm \<Rightarrow> a\<lparr>app_home := handleParseFiles e (app_home a) fs pm\<rparr>)"

fun run :: "env \<Rightarrow> app \<Rightarrow> action list \<Rightarrow> app" where
  "run e a [] = a"
| "run e a (act # acts) = run e (step e a act) acts"

definition app0 :: "env \<Rightarrow> string option \<Rightarrow> app" where
  "app0 e url = \<lparr>app_home = initSession e (home0 url), chat_input = [], inflight = []\<rparr>"

section \<open>Concrete sessions\<close>

text \<open>An event of a given type with every optional property absent.\<close>

definition blank :: "event_type \<Rightarrow> StreamEvent" where
  "blank k =
     \<lparr>ev_type = k, ev_message = None, ev_error = None, ev_text = None, ev_friendly = None,
      applied_count = None, applied_edits = None, session_id = None, user_session_id = None,
      pdf_bytes = None\<rparr>"

text \<open>
  An environment for the examples: ids are the decimal draw numbers, the clock counts
  the draws, analysis detects one text field, nothing is stored, the backend answers
  the \<open>n\<close>-th opened stream with \<open>backend n\<close>, and React runs the updaters of
  a turn when the handler has returned (the events and the end of the stream arrive
  without a render in between).
\<close>

definition demo_env :: "(nat \<Rightarrow> agent_stream) \<Rightarrow> env" where
  "demo_env backend =
     \<lparr>generateId = show_nat, now = (\<lambda>k. k), hexToBytes = map of_char,
      streamAgentFill = (\<lambda>n args. backend n),
      analyzePdf = (\<lambda>f. Inr \<lparr>an_success = True, an_message = [],
                              an_fields = [\<lparr>field_id = ''name'', field_kind = TextField, page = 0,
                                            label_context = ''Name'', current_value = None,
                                            options = None\<rparr>],
                              field_count = 1\<rparr>),
      streamParseFiles = (\<lambda>fs pm u. \<lparr>parse_events = [], parse_end = EndOfStream\<rparr>),
      loadSessionFromStorage = (\<lambda>u. None),
      getSessionPdf = (\<lambda>u. Fulfilled None),
      getSessionOriginalPdf = (\<lambda>u. Fulfilled None),
      getSessionContextFiles = (\<lambda>u. Fulfilled None),
      rendered = (\<lambda>k. False)\<rparr>"

text \<open>A first visit followed by the upload of form.pdf.\<close>

definition loaded :: "env \<Rightarrow> home" where
  "loaded e = handleFileSelect e (initSession e (home0 None)) (Some ''form.pdf'')"

text \<open>The agent reports an error inline and the stream then closes.\<close>

definition error_stream :: agent_stream where
  "error_stream =
     \<lparr>stream_events = [(blank CompleteEv)\<lparr>applied_count := Some 1\<rparr>,
                       (blank ErrorEv)\<lparr>ev_error := Some ''boom''\<rparr>],
      stream_end = EndOfStream\<rparr>"

text \<open>The agent reports an error inline and the transport then breaks.\<close>

definition broken_stream :: agent_stream where
  "broken_stream =
     \<lparr>stream_events = [(blank ErrorEv)\<lparr>ev_error := Some ''boom''\<rparr>],
      stream_end = Throws (ErrorObj ''network'')\<rparr>"

text \<open>A first turn that completes with an agent session id and one edit but renders
  no PDF, and a second turn whose edits record holds the new field only.\<close>

definition first_turn :: agent_stream where
  "first_turn =
     \<lparr>stream_events = [(blank CompleteEv)\<lparr>applied_count := Some 1,
                          applied_edits := Some [(''name'', JStr ''John Doe'')],
                          session_id := Some ''abc''\<rparr>],
      stream_end = EndOfStream\<rparr>"

definition second_turn :: agent_stream where
  "second_turn =
     \<lparr>stream_events = [(blank CompleteEv)\<lparr>applied_count := Some 1,
                          applied_edits := Some [(''date'', JStr ''2024-01-01'')],
                          user_session_id := Some ''u1''\<rparr>],
      stream_end = EndOfStream\<rparr>"

definition two_turns :: "nat \<Rightarrow> agent_stream" where
  "two_turns n = (if n = 0 then first_turn else second_turn)"


section \<open>What a stream reports\<close>

text \<open>
  The log entries a sequence of events produces, the first event being folded at draw
  \<open>k\<close>: one entry per event for which \<open>createLogEntry\<close> returns one, in order.
\<close>

fun log_entries :: "env \<Rightarrow> nat \<Rightarrow> StreamEvent list \<Rightarrow> AgentLogEntry list" where
  "log_entries e k [] = []"
| "log_entries e k (ev # evs) =
     (case createLogEntry (generateId e k) (now e k) ev of None \<Rightarrow> [] | Some en \<Rightarrow> [en])
     @ log_entries e (Suc k) evs"

text \<open>A message after the entries \<open>ens\<close> were appended to the log of the message
  with id \<open>aid\<close>.\<close>

definition append_log :: "string \<Rightarrow> AgentLogEntry list \<Rightarrow> ChatMessage \<Rightarrow> ChatMessage" where
  "append_log aid ens m =
     (if msg_id m \<noteq> aid \<or> ens = [] then m
      else m\<lparr>agentLog := Some ((case agentLog m of None \<Rightarrow> [] | Some l \<Rightarrow> l) @ ens)\<rparr>)"

text \<open>The edits record of the last \<open>complete\<close> event that carries one.\<close>

definition reported_edits :: "StreamEvent list \<Rightarrow> edits option" where
  "reported_edits evs =
     (let xs = filter (\<lambda>ev. ev_type ev = CompleteEv \<and> applied_edits ev \<noteq> None) evs
      in if xs = [] then None else applied_edits (last xs))"

text \<open>The non-empty identifier (selected by \<open>sel\<close>) of the last \<open>complete\<close> event
  that carries one.\<close>

definition reported_id :: "(StreamEvent \<Rightarrow> string option) \<Rightarrow> StreamEvent list \<Rightarrow> string option" where
  "reported_id sel evs =
     (let xs = filter (\<lambda>ev. ev_type ev = CompleteEv \<and> truthy_str (sel ev)) evs
      in if xs = [] then None else sel (last xs))"

text \<open>The decoded bytes of the last \<open>pdf_ready\<close> event that carries a document.\<close>

definition reported_pdf :: "env \<Rightarrow> StreamEvent list \<Rightarrow> bytes option" where
  "reported_pdf e evs =
     (let xs = filter (\<lambda>ev. ev_type ev = PdfReady \<and> truthy_str (pdf_bytes ev)) evs
      in if xs = [] then None
         else (case pdf_bytes (last xs) of None \<Rightarrow> None | Some hex \<Rightarrow> Some (hexToBytes e hex)))"

text \<open>The field keys of the applied edits held in the state.\<close>

definition held_keys :: "edits option \<Rightarrow> string set" where
  "held_keys x = (case x of None \<Rightarrow> {} | Some ed \<Rightarrow> set (object_keys ed))"

text \<open>The number of \<open>error\<close> entries of a log.\<close>

definition error_entries :: "AgentLogEntry list \<Rightarrow> nat" where
  "error_entries l = length (filter (\<lambda>en. entry_type en = ErrorEntry) l)"

text \<open>The actions that call \<open>handleFileSelect\<close>: "New Form" and an upload.\<close>

definition selects_file :: "action \<Rightarrow> bool" where
  "selects_file act = (case act of ResetForm \<Rightarrow> True | SelectFile f \<Rightarrow> True | _ \<Rightarrow> False)"

section \<open>The loop preserves what it does not touch\<close>

lemma render_home [simp]:
  "isProcessing (render s) = isProcessing s"
  "sessionId (render s) = sessionId s"
  "messages (render s) = messages s"
  "opened (render s) = opened s"
  "saved (render s) = saved s"
  "draws (render s) = draws s"
  "appliedEdits (render s) = appliedEdits s"
  "agentSessionId (render s) = agentSessionId s"
  "userSessionId (render s) = userSessionId s"
  "pdfFile (render s) = pdfFile s"
  "formFields (render s) = formFields s"
  "deferredStatus (render s) = None"
  "statusMessage (render s) = (case deferredStatus s of None \<Rightarrow> statusMessage s | Some c \<Rightarrow> c)"
  by (simp_all add: render_def split: option.splits)

lemma on_pdf_ready_home:
  "isProcessing (fst (on_pdf_ready e ev st)) = isProcessing (fst st)"
  "statusMessage (fst (on_pdf_ready e ev st)) = statusMessage (fst st)"
  "deferredStatus (fst (on_pdf_ready e ev st)) = deferredStatus (fst st)"
  "sessionId (fst (on_pdf_ready e ev st)) = sessionId (fst st)"
  "messages (fst (on_pdf_ready e ev st)) = messages (fst st)"
  "opened (fst (on_pdf_ready e ev st)) = opened (fst st)"
  "saved (fst (on_pdf_ready e ev st)) = saved (fst st)"
  "draws (fst (on_pdf_ready e ev st)) = draws (fst st)"
  "appliedEdits (fst (on_pdf_ready e ev st)) = appliedEdits (fst st)"
  "agentSessionId (fst (on_pdf_ready e ev st)) = agentSessionId (fst st)"
  "userSessionId (fst (on_pdf_ready e ev st)) = userSessionId (fst st)"
  "pdfFile (fst (on_pdf_ready e ev st)) = pdfFile (fst st)"
  "formFields (fst (on_pdf_ready e ev st)) = formFields (fst st)"
  by (simp_all add: on_pdf_ready_def Let_def split: option.splits)

lemma on_pdf_ready_acc:
  "finalContent (snd (on_pdf_ready e ev st)) = finalContent (snd st)"
  "appliedCount (snd (on_pdf_ready e ev st)) = appliedCount (snd st)"
  "newAppliedEdits (snd (on_pdf_ready e ev st)) = newAppliedEdits (snd st)"
  "newAgentSessionId (snd (on_pdf_ready e ev st)) = newAgentSessionId (snd st)"
  "newUserSessionId (snd (on_pdf_ready e ev st)) = newUserSessionId (snd st)"
  by (simp_all add: on_pdf_ready_def Let_def split: option.splits)

lemma fold_event_home:
  "isProcessing (fst (fold_event e aid cont ev st)) = isProcessing (fst st)"
  "sessionId (fst (fold_event e aid cont ev st)) = sessionId (fst st)"
  "opened (fst (fold_event e aid cont ev st)) = opened (fst st)"
  "saved (fst (fold_event e aid cont ev st)) = saved (fst st)"
  "draws (fst (fold_event e aid cont ev st)) = Suc (draws (fst st))"
  "appliedEdits (fst (fold_event e aid cont ev st)) = appliedEdits (fst st)"
  "agentSessionId (fst (fold_event e aid cont ev st)) = agentSessionId (fst st)"
  "userSessionId (fst (fold_event e aid cont ev st)) = userSessionId (fst st)"
  "pdfFile (fst (fold_event e aid cont ev st)) = pdfFile (fst st)"
  "formFields (fst (fold_event e aid cont ev st)) = formFields (fst st)"
  by (simp_all add: fold_event_def Let_def on_pdf_ready_home)

lemma fold_event_messages:
  "messages (fst (fold_event e aid cont ev st)) =
     map (update_log aid (createLogEntry (generateId e (draws (fst st))) (now e (draws (fst st))) ev))
       (messages (fst st))"
  by (simp add: fold_event_def Let_def on_pdf_ready_home)

lemma consume_home:
  "isProcessing (fst (consume e aid cont evs st)) = isProcessing (fst st)"
  "sessionId (fst (consume e aid cont evs st)) = sessionId (fst st)"
  "opened (fst (consume e aid cont evs st)) = opened (fst st)"
  "saved (fst (consume e aid cont evs st)) = saved (fst st)"
  "draws (fst (consume e aid cont evs st)) = draws (fst st) + length evs"
  "appliedEdits (fst (consume e aid cont evs st)) = appliedEdits (fst st)"
  "agentSessionId (fst (consume e aid cont evs st)) = agentSessionId (fst st)"
  "userSessionId (fst (consume e aid cont evs st)) = userSessionId (fst st)"
  "pdfFile (fst (consume e aid cont evs st)) = pdfFile (fst st)"
  "formFields (fst (consume e aid cont evs st)) = formFields (fst st)"
  by (induction evs arbitrary: st; simp add: fold_event_home)+

lemma append_log_update_log:
  "append_log aid ens (update_log aid x m) =
     append_log aid ((case x of None \<Rightarrow> [] | Some en \<Rightarrow> [en]) @ ens) m"
  by (cases x) (auto simp: append_log_def update_log_def split: option.splits)

lemma append_log_Nil: "append_log aid [] m = m"
  by (simp add: append_log_def)

lemma consume_messages:
  "messages (fst (consume e aid cont evs st)) =
     map (append_log aid (log_entries e (draws (fst st)) evs)) (messages (fst st))"
proof (induction evs arbitrary: st)
  case Nil
  show ?case by (simp add: append_log_Nil)
next
  case (Cons ev evs)
  show ?case
    by (simp add: Cons.IH fold_event_home fold_event_messages append_log_update_log
        comp_def)
qed

section \<open>What the loop collects\<close>

lemma fold_event_acc:
  "newAppliedEdits (snd (fold_event e aid cont ev st)) =
     (if ev_type ev = CompleteEv \<and> applied_edits ev \<noteq> None then applied_edits ev
      else newAppliedEdits (snd st))"
  "newAgentSessionId (snd (fold_event e aid cont ev st)) =
     (if ev_type ev = CompleteEv \<and> truthy_str (session_id ev) then session_id ev
      else newAgentSessionId (snd st))"
  "newUserSessionId (snd (fold_event e aid cont ev st)) =
     (if ev_type ev = CompleteEv \<and> truthy_str (user_session_id ev) then user_session_id ev
      else newUserSessionId (snd st))"
  by (auto simp: fold_event_def Let_def on_pdf_ready_acc on_complete_def split: option.splits)

lemma fold_event_pdf:
  "newFilledPdfBytes (snd (fold_event e aid cont ev st)) =
     (if ev_type ev = PdfReady \<and> truthy_str (pdf_bytes ev)
      then (case pdf_bytes ev of None \<Rightarrow> None | Some hex \<Rightarrow> Some (hexToBytes e hex))
      else newFilledPdfBytes (snd st))"
  by (auto simp: fold_event_def Let_def on_pdf_ready_def on_complete_def truthy_str_def
      split: option.splits)

lemma consume_append:
  "consume e aid cont (xs @ ys) st = consume e aid cont ys (consume e aid cont xs st)"
  by (induction xs arbitrary: st) simp_all

lemma consume_snoc:
  "consume e aid cont (xs @ [x]) st = fold_event e aid cont x (consume e aid cont xs st)"
  by (simp add: consume_append)

lemma consume_edits:
  "newAppliedEdits (snd (consume e aid cont evs st)) =
     (case reported_edits evs of None \<Rightarrow> newAppliedEdits (snd st) | Some x \<Rightarrow> Some x)"
proof (induction evs rule: rev_induct)
  case Nil
  show ?case by (simp add: reported_edits_def)
next
  case (snoc ev evs)
  show ?case
    using snoc.IH
    by (auto simp: consume_snoc fold_event_acc reported_edits_def Let_def split: option.splits)
qed

lemma consume_agent_id:
  "newAgentSessionId (snd (consume e aid cont evs st)) =
     (case reported_id session_id evs of None \<Rightarrow> newAgentSessionId (snd st) | Some x \<Rightarrow> Some x)"
proof (induction evs rule: rev_induct)
  case Nil
  show ?case by (simp add: reported_id_def)
next
  case (snoc ev evs)
  show ?case
    using snoc.IH
    by (auto simp: consume_snoc fold_event_acc reported_id_def Let_def truthy_str_def
        split: option.splits)
qed

lemma consume_user_id:
  "newUserSessionId (snd (consume e aid cont evs st)) =
     (case reported_id user_session_id evs of None \<Rightarrow> newUserSessionId (snd st)
      | Some x \<Rightarrow> Some x)"
proof (induction evs rule: rev_induct)
  case Nil
  show ?case by (simp add: reported_id_def)
next
  case (snoc ev evs)
  show ?case
    using snoc.IH
    by (auto simp: consume_snoc fold_event_acc reported_id_def Let_def truthy_str_def
        split: option.splits)
qed

lemma consume_pdf:
  "newFilledPdfBytes (snd (consume e aid cont evs st)) =
     (case reported_pdf e evs of None \<Rightarrow> newFilledPdfBytes (snd st) | Some x \<Rightarrow> Some x)"
proof (induction evs rule: rev_induct)
  case Nil
  show ?case by (simp add: reported_pdf_def)
next
  case (snoc ev evs)
  show ?case
    using snoc.IH
    by (auto simp: consume_snoc fold_event_pdf reported_pdf_def Let_def truthy_str_def
        split: option.splits)
qed

lemma reported_id_truthy:
  "reported_id sel evs = Some x \<Longrightarrow> x \<noteq> []"
proof -
  assume a: "reported_id sel evs = Some x"
  let ?xs = "filter (\<lambda>ev. ev_type ev = CompleteEv \<and> truthy_str (sel ev)) evs"
  from a have ne: "?xs \<noteq> []" and l: "sel (last ?xs) = Some x"
    by (auto simp: reported_id_def Let_def split: if_splits)
  from ne have "last ?xs \<in> set ?xs" by (rule last_in_set)
  then have "truthy_str (sel (last ?xs))" by simp
  with l show ?thesis by (simp add: truthy_str_def)
qed

section \<open>The end of a turn\<close>

lemma finalize_ok_home:
  "sessionId (finalize_ok c aid a s) = sessionId s"
  "deferredStatus (finalize_ok c aid a s) = deferredStatus s"
  "opened (finalize_ok c aid a s) = opened s"
  "pdfFile (finalize_ok c aid a s) = pdfFile s"
  "formFields (finalize_ok c aid a s) = formFields s"
  "draws (finalize_ok c aid a s) = draws s"
  "messages (finalize_ok c aid a s) = map (mark_complete aid a) (messages s)"
  by (simp_all add: finalize_ok_def Let_def split: option.splits)

lemma finalize_ok_adopts:
  "appliedEdits (finalize_ok c aid a s) =
     (case newAppliedEdits a of None \<Rightarrow> appliedEdits s | Some x \<Rightarrow> Some x)"
  "agentSessionId (finalize_ok c aid a s) =
     (if truthy_str (newAgentSessionId a) then newAgentSessionId a else agentSessionId s)"
  "userSessionId (finalize_ok c aid a s) =
     (if truthy_str (newUserSessionId a) then newUserSessionId a else userSessionId s)"
  by (simp_all add: finalize_ok_def Let_def split: option.splits)

lemma finalize_ok_saved:
  "saved (finalize_ok c aid a s) =
     saved s @
     (if truthy_str (newUserSessionId a)
      then [(\<lparr>snap_id = sessionId c, originalPdf = pdfFile c,
               snap_filledPdfBytes =
                 (case newFilledPdfBytes a of Some b \<Rightarrow> Some b | None \<Rightarrow> filledPdfBytes c),
               snap_fields = formFields c, snap_messages = messages c,
               snap_isProcessing = False\<rparr>, newUserSessionId a)]
      else [])"
  by (simp add: finalize_ok_def Let_def split: option.splits)

lemma finalize_err_home:
  "sessionId (finalize_err e aid f s) = sessionId s"
  "deferredStatus (finalize_err e aid f s) = deferredStatus s"
  "opened (finalize_err e aid f s) = opened s"
  "saved (finalize_err e aid f s) = saved s"
  "pdfFile (finalize_err e aid f s) = pdfFile s"
  "formFields (finalize_err e aid f s) = formFields s"
  "appliedEdits (finalize_err e aid f s) = appliedEdits s"
  "agentSessionId (finalize_err e aid f s) = agentSessionId s"
  "userSessionId (finalize_err e aid f s) = userSessionId s"
  "messages (finalize_err e aid f s) =
     map (mark_error (mk_entry (generateId e (draws s)) (now e (draws s)) ErrorEntry
                        (fault_message f) None) aid (fault_message f)) (messages s)"
  by (simp_all add: finalize_err_def Let_def)

lemma end_turn_status:
  "statusMessage (end_turn e t s) = (case deferredStatus s of None \<Rightarrow> [] | Some c \<Rightarrow> c)"
  "deferredStatus (end_turn e t s) = None"
  by (simp_all add: end_turn_def Let_def finalize_ok_home finalize_err_home
      split: stream_end.splits option.splits)

lemma end_turn_home:
  "isProcessing (end_turn e t s) = False"
  "sessionId (end_turn e t s) = sessionId s"
  "opened (end_turn e t s) = opened s"
  "pdfFile (end_turn e t s) = pdfFile s"
  "formFields (end_turn e t s) = formFields s"
  "length (messages (end_turn e t s)) = length (messages s)"
  by (simp_all add: end_turn_def Let_def finalize_ok_home finalize_err_home split: stream_end.splits)

section \<open>A whole turn\<close>

lemma placeholder_sel:
  "msg_id (placeholder e k) = generateId e k"
  "agentLog (placeholder e k) = Some []"
  "msg_status (placeholder e k) = Some Streaming"
  by (simp_all add: placeholder_def createMessage_def)

lemma begin_turn_file:
  assumes "pdfFile s = Some f"
  shows "begin_turn e s c =
     (s\<lparr>messages := messages s @ [createMessage e (draws s) User c None, placeholder e (draws s + 1)],
         isProcessing := True, statusMessage := ''Starting agent...'',
         opened := opened s @ [fill_args s f c], draws := draws s + 2\<rparr>,
      Some \<lparr>t_closure = s, t_assistant = generateId e (draws s + 1),
            t_cont = is_continuation s, t_acc = acc0,
            t_pending = stream_events (streamAgentFill e (length (opened s)) (fill_args s f c)),
            t_end = stream_end (streamAgentFill e (length (opened s)) (fill_args s f c))\<rparr>)"
  using assms by (simp add: begin_turn_def Let_def placeholder_sel)

lemma handleSendMessage_file:
  assumes "pdfFile s = Some f"
  shows "handleSendMessage e s c =
     run_turn e (the (snd (begin_turn e s c))) (fst (begin_turn e s c))"
  by (simp add: handleSendMessage_def begin_turn_file [OF assms])

lemma run_turn_home:
  "isProcessing (run_turn e t s) = False"
  "sessionId (run_turn e t s) = sessionId s"
  "opened (run_turn e t s) = opened s"
  "pdfFile (run_turn e t s) = pdfFile s"
  "formFields (run_turn e t s) = formFields s"
  "length (messages (run_turn e t s)) = length (messages s)"
  by (simp_all add: run_turn_def Let_def end_turn_home consume_home consume_messages)

text \<open>
  The status text at the end of a turn is the one an updater still had to set when the
  \<open>finally\<close> block ran. Under a schedule that runs the updaters after every event
  there is none, and the text ends empty.
\<close>

lemma fold_event_deferred:
  "deferredStatus (fst (fold_event e aid cont ev st)) =
     (if rendered e (draws (fst st)) then None
      else (case createLogEntry (generateId e (draws (fst st))) (now e (draws (fst st))) ev of
              Some en \<Rightarrow> if aid \<in> set (map msg_id (messages (fst st)))
                         then Some (entry_content en) else deferredStatus (fst st)
            | None \<Rightarrow> deferredStatus (fst st)))"
  by (simp add: fold_event_def Let_def on_pdf_ready_home)

lemma consume_rendered:
  assumes "\<And>k. rendered e k" and "deferredStatus (fst st) = None"
  shows "deferredStatus (fst (consume e aid cont evs st)) = None"
  using assms(2)
  by (induction evs arbitrary: st) (simp_all add: fold_event_deferred assms(1))

lemma run_turn_status:
  "statusMessage (run_turn e t s) =
     (case deferredStatus (fst (consume e (t_assistant t) (t_cont t) (t_pending t) (s, t_acc t))) of
        None \<Rightarrow> []
      | Some c \<Rightarrow> c)"
  by (simp add: run_turn_def Let_def end_turn_status)

lemma run_turn_status_rendered:
  assumes "\<And>k. rendered e k" and "deferredStatus s = None"
  shows "statusMessage (run_turn e t s) = []"
  using consume_rendered [of e "(s, t_acc t)" "t_assistant t" "t_cont t" "t_pending t"] assms
  by (simp add: run_turn_status)

lemma handleSendMessage_opened:
  assumes "pdfFile s = Some f"
  shows "opened (handleSendMessage e s c) = opened s @ [fill_args s f c]"
  by (simp add: handleSendMessage_file [OF assms] run_turn_home begin_turn_file [OF assms])

section \<open>The placeholder at the end of a turn\<close>

lemma append_log_own:
  assumes "msg_id m = aid" and "agentLog m = Some l"
  shows "append_log aid ens m = m\<lparr>agentLog := Some (l @ ens)\<rparr>"
  using assms by (cases m) (simp add: append_log_def)

lemma createLogEntry_error:
  "ev_type ev = ErrorEv \<Longrightarrow>
     createLogEntry i t ev = Some (mk_entry i t ErrorEntry (str_or (ev_error ev) ''An error occurred'') None)"
  by (simp add: createLogEntry_def)

lemma createLogEntry_not_error:
  "ev_type ev \<noteq> ErrorEv \<Longrightarrow> createLogEntry i t ev = Some en \<Longrightarrow> entry_type en \<noteq> ErrorEntry"
  by (auto simp: createLogEntry_def mk_entry_def Let_def
      split: event_type.splits option.splits if_splits)

lemma error_entries_simps:
  "error_entries [] = 0"
  "error_entries (x # xs) = (if entry_type x = ErrorEntry then 1 else 0) + error_entries xs"
  "error_entries (xs @ ys) = error_entries xs + error_entries ys"
  by (simp_all add: error_entries_def)

lemma error_entries_log_entries:
  "error_entries (log_entries e k evs) = length (filter (\<lambda>ev. ev_type ev = ErrorEv) evs)"
proof (induction evs arbitrary: k)
  case Nil
  show ?case by (simp add: error_entries_simps)
next
  case (Cons ev evs)
  show ?case
  proof (cases "ev_type ev = ErrorEv")
    case True
    then show ?thesis
      by (simp add: error_entries_simps Cons.IH createLogEntry_error mk_entry_def)
  next
    case False
    then have "error_entries
        (case createLogEntry (generateId e k) (now e k) ev of None \<Rightarrow> [] | Some en \<Rightarrow> [en]) = 0"
      by (auto simp: error_entries_simps split: option.splits dest: createLogEntry_not_error)
    with False show ?thesis
      by (simp add: error_entries_simps Cons.IH)
  qed
qed

text \<open>The placeholder at the end of a turn whose stream closed, and of one whose
  stream threw.\<close>

lemma run_turn_last_ok:
  assumes "messages s = ms @ [m]" and "msg_id m = t_assistant t" and "agentLog m = Some l"
    and "t_end t = EndOfStream"
  shows "last (messages (run_turn e t s)) =
     mark_complete (t_assistant t)
       (snd (consume e (t_assistant t) (t_cont t) (t_pending t) (s, t_acc t)))
       (m\<lparr>agentLog := Some (l @ log_entries e (draws s) (t_pending t))\<rparr>)"
  using assms
  by (simp add: run_turn_def Let_def end_turn_def finalize_ok_home consume_messages
      append_log_own)

lemma run_turn_last_err:
  assumes "messages s = ms @ [m]" and "msg_id m = t_assistant t" and "agentLog m = Some l"
    and "t_end t = Throws flt"
  shows "last (messages (run_turn e t s)) =
     m\<lparr>msg_status := Some Error, msg_content := ''Error: '' @ fault_message flt,
       agentLog := Some (l @ log_entries e (draws s) (t_pending t) @
         [mk_entry (generateId e (draws s + length (t_pending t)))
            (now e (draws s + length (t_pending t))) ErrorEntry (fault_message flt) None])\<rparr>"
  using assms
  by (simp add: run_turn_def Let_def end_turn_def finalize_err_home consume_messages
      consume_home append_log_own mark_error_def)

lemma handleSendMessage_last_ok:
  assumes "pdfFile s = Some f"
    and "stream_end (streamAgentFill e (length (opened s)) (fill_args s f c)) = EndOfStream"
  shows "msg_status (last (messages (handleSendMessage e s c))) = Some Complete"
proof -
  let ?b = "begin_turn e s c"
  have m: "messages (fst ?b) =
      (messages s @ [createMessage e (draws s) User c None]) @ [placeholder e (draws s + 1)]"
    by (simp add: begin_turn_file [OF assms(1)])
  have i: "msg_id (placeholder e (draws s + 1)) = t_assistant (the (snd ?b))"
    by (simp add: begin_turn_file [OF assms(1)] placeholder_sel)
  have l: "agentLog (placeholder e (draws s + 1)) = Some []"
    by (simp add: placeholder_sel)
  have en: "t_end (the (snd ?b)) = EndOfStream"
    using assms(2) by (simp add: begin_turn_file [OF assms(1)])
  show ?thesis
    unfolding handleSendMessage_file [OF assms(1)] run_turn_last_ok [OF m i l en]
    using i by (simp add: mark_complete_def)
qed

lemma handleSendMessage_last_err:
  assumes "pdfFile s = Some f"
    and "streamAgentFill e (length (opened s)) (fill_args s f c) =
           \<lparr>stream_events = evs, stream_end = Throws flt\<rparr>"
  shows "last (messages (handleSendMessage e s c)) =
     (placeholder e (draws s + 1))
       \<lparr>msg_status := Some Error, msg_content := ''Error: '' @ fault_message flt,
        agentLog := Some (log_entries e (draws s + 2) evs @
          [mk_entry (generateId e (draws s + 2 + length evs)) (now e (draws s + 2 + length evs))
             ErrorEntry (fault_message flt) None])\<rparr>"
proof -
  let ?b = "begin_turn e s c"
  have m: "messages (fst ?b) =
      (messages s @ [createMessage e (draws s) User c None]) @ [placeholder e (draws s + 1)]"
    by (simp add: begin_turn_file [OF assms(1)])
  have i: "msg_id (placeholder e (draws s + 1)) = t_assistant (the (snd ?b))"
    by (simp add: begin_turn_file [OF assms(1)] placeholder_sel)
  have l: "agentLog (placeholder e (draws s + 1)) = Some []"
    by (simp add: placeholder_sel)
  have en: "t_end (the (snd ?b)) = Throws flt"
    by (simp add: begin_turn_file [OF assms(1)] assms(2))
  show ?thesis
    unfolding handleSendMessage_file [OF assms(1)] run_turn_last_err [OF m i l en]
    by (simp add: begin_turn_file [OF assms(1)] assms(2))
qed

section \<open>What a whole turn adopts\<close>

lemma handleSendMessage_adopts_ok:
  assumes "pdfFile s = Some f"
    and "streamAgentFill e (length (opened s)) (fill_args s f c) =
           \<lparr>stream_events = evs, stream_end = EndOfStream\<rparr>"
  shows "appliedEdits (handleSendMessage e s c) =
           (case reported_edits evs of None \<Rightarrow> appliedEdits s | Some x \<Rightarrow> Some x)"
    and "agentSessionId (handleSendMessage e s c) =
           (case reported_id session_id evs of None \<Rightarrow> agentSessionId s | Some x \<Rightarrow> Some x)"
    and "userSessionId (handleSendMessage e s c) =
           (case reported_id user_session_id evs of None \<Rightarrow> userSessionId s | Some x \<Rightarrow> Some x)"
    and "saved (handleSendMessage e s c) =
           saved s @
           (case reported_id user_session_id evs of
              None \<Rightarrow> []
            | Some u \<Rightarrow>
                [(\<lparr>snap_id = sessionId s, originalPdf = pdfFile s,
                   snap_filledPdfBytes =
                     (case reported_pdf e evs of Some b \<Rightarrow> Some b | None \<Rightarrow> filledPdfBytes s),
                   snap_fields = formFields s, snap_messages = messages s,
                   snap_isProcessing = False\<rparr>, Some u)])"
proof -
  have b: "begin_turn e s c =
     (s\<lparr>messages := messages s @ [createMessage e (draws s) User c None, placeholder e (draws s + 1)],
         isProcessing := True, statusMessage := ''Starting agent...'',
         opened := opened s @ [fill_args s f c], draws := draws s + 2\<rparr>,
      Some \<lparr>t_closure = s, t_assistant = generateId e (draws s + 1),
            t_cont = is_continuation s, t_acc = acc0, t_pending = evs, t_end = EndOfStream\<rparr>)"
    by (simp add: begin_turn_file [OF assms(1)] assms(2))
  have t: "truthy_str (case reported_id sel evs of None \<Rightarrow> None | Some x \<Rightarrow> Some x) =
      (reported_id sel evs \<noteq> None)" for sel
    by (auto simp: truthy_str_def split: option.splits dest: reported_id_truthy)
  show "appliedEdits (handleSendMessage e s c) =
           (case reported_edits evs of None \<Rightarrow> appliedEdits s | Some x \<Rightarrow> Some x)"
    by (simp add: handleSendMessage_def b run_turn_def Let_def end_turn_def
        finalize_ok_adopts consume_edits consume_home acc0_def split: option.splits)
  show "agentSessionId (handleSendMessage e s c) =
           (case reported_id session_id evs of None \<Rightarrow> agentSessionId s | Some x \<Rightarrow> Some x)"
    using t [of session_id]
    by (simp add: handleSendMessage_def b run_turn_def Let_def end_turn_def
        finalize_ok_adopts consume_agent_id consume_home acc0_def split: option.splits)
  show "userSessionId (handleSendMessage e s c) =
           (case reported_id user_session_id evs of None \<Rightarrow> userSessionId s | Some x \<Rightarrow> Some x)"
    using t [of user_session_id]
    by (simp add: handleSendMessage_def b run_turn_def Let_def end_turn_def
        finalize_ok_adopts consume_user_id consume_home acc0_def split: option.splits)
  show "saved (handleSendMessage e s c) =
           saved s @
           (case reported_id user_session_id evs of
              None \<Rightarrow> []
            | Some u \<Rightarrow>
                [(\<lparr>snap_id = sessionId s, originalPdf = pdfFile s,
                   snap_filledPdfBytes =
                     (case reported_pdf e evs of Some b \<Rightarrow> Some b | None \<Rightarrow> filledPdfBytes s),
                   snap_fields = formFields s, snap_messages = messages s,
                   snap_isProcessing = False\<rparr>, Some u)])"
    using t [of user_session_id]
    by (simp add: handleSendMessage_def b run_turn_def Let_def end_turn_def
        finalize_ok_saved consume_user_id consume_pdf consume_home acc0_def
        split: option.splits)
qed

lemma handleSendMessage_keeps_err:
  assumes "pdfFile s = Some f"
    and "stream_end (streamAgentFill e (length (opened s)) (fill_args s f c)) = Throws flt"
  shows "appliedEdits (handleSendMessage e s c) = appliedEdits s"
    and "agentSessionId (handleSendMessage e s c) = agentSessionId s"
    and "userSessionId (handleSendMessage e s c) = userSessionId s"
    and "saved (handleSendMessage e s c) = saved s"
  using assms(2)
  by (simp_all add: handleSendMessage_def begin_turn_file [OF assms(1)] run_turn_def Let_def
      end_turn_def finalize_err_home consume_home)

section \<open>The handlers around the turn\<close>

lemma handleFileSelect_home:
  "isProcessing (handleFileSelect e s sel) = isProcessing s"
  "sessionId (handleFileSelect e s sel) = sessionId s"
  "opened (handleFileSelect e s sel) = opened s"
  "saved (handleFileSelect e s sel) = saved s"
  "agentSessionId (handleFileSelect e s sel) = None"
  "userSessionId (handleFileSelect e s sel) = None"
  "appliedEdits (handleFileSelect e s sel) = None"
  "length (messages s) \<le> length (messages (handleFileSelect e s sel))"
  "messages (handleFileSelect e s None) = messages s"
  by (simp_all add: handleFileSelect_def Let_def split: option.splits sum.splits)

lemma parse_loop_home:
  "isProcessing (fst (parse_loop evs st)) = isProcessing (fst st)"
  "sessionId (fst (parse_loop evs st)) = sessionId (fst st)"
  "messages (fst (parse_loop evs st)) = messages (fst st)"
  "agentSessionId (fst (parse_loop evs st)) = agentSessionId (fst st)"
  "userSessionId (fst (parse_loop evs st)) = userSessionId (fst st)"
  by (induction evs arbitrary: st; simp split: option.splits)+

lemma handleParseFiles_home:
  "isProcessing (handleParseFiles e s fs pm) = isProcessing s"
  "sessionId (handleParseFiles e s fs pm) = sessionId s"
  "agentSessionId (handleParseFiles e s fs pm) = agentSessionId s"
  "userSessionId (handleParseFiles e s fs pm) =
     (if truthy_str (userSessionId s) then userSessionId s
      else Some (generateId e (draws s) @ ''-'' @ show_nat (now e (draws s))))"
  "length (messages s) \<le> length (messages (handleParseFiles e s fs pm))"
  by (simp_all add: handleParseFiles_def Let_def parse_loop_home split: stream_end.splits)

lemma begin_turn_home:
  "sessionId (fst (begin_turn e s c)) = sessionId s"
  "agentSessionId (fst (begin_turn e s c)) = agentSessionId s"
  "userSessionId (fst (begin_turn e s c)) = userSessionId s"
  "length (messages s) \<le> length (messages (fst (begin_turn e s c)))"
  by (simp_all add: begin_turn_def Let_def split: option.splits)

lemma begin_turn_processing:
  "isProcessing (fst (begin_turn e s c)) = (isProcessing s \<or> snd (begin_turn e s c) \<noteq> None)"
  by (simp add: begin_turn_def Let_def split: option.splits)

lemma end_turn_ids:
  "agentSessionId s \<noteq> None \<Longrightarrow> agentSessionId (end_turn e t s) \<noteq> None"
  "userSessionId s \<noteq> None \<Longrightarrow> userSessionId (end_turn e t s) \<noteq> None"
  by (auto simp: end_turn_def Let_def finalize_ok_adopts finalize_err_home truthy_str_def
      split: stream_end.splits option.splits)

lemma turn_step_home:
  "sessionId (fst (turn_step e t s)) = sessionId s"
  "length (messages (fst (turn_step e t s))) = length (messages s)"
  "isProcessing (fst (turn_step e t s)) = (isProcessing s \<and> snd (turn_step e t s) \<noteq> None)"
  by (simp_all add: turn_step_def Let_def end_turn_home fold_event_home
      fold_event_messages split: list.splits)

lemma turn_step_ids:
  "agentSessionId s \<noteq> None \<Longrightarrow> agentSessionId (fst (turn_step e t s)) \<noteq> None"
  "userSessionId s \<noteq> None \<Longrightarrow> userSessionId (fst (turn_step e t s)) \<noteq> None"
proof -
  assume a: "agentSessionId s \<noteq> None"
  show "agentSessionId (fst (turn_step e t s)) \<noteq> None"
  proof (cases "t_pending t")
    case Nil
    with end_turn_ids(1) [OF a] show ?thesis by (simp add: turn_step_def)
  next
    case (Cons ev evs)
    with a show ?thesis by (simp add: turn_step_def Let_def fold_event_home)
  qed
next
  assume u: "userSessionId s \<noteq> None"
  show "userSessionId (fst (turn_step e t s)) \<noteq> None"
  proof (cases "t_pending t")
    case Nil
    with end_turn_ids(2) [OF u] show ?thesis by (simp add: turn_step_def)
  next
    case (Cons ev evs)
    with u show ?thesis by (simp add: turn_step_def Let_def fold_event_home)
  qed
qed

lemma initSession_idle: "isProcessing (initSession e (home0 url)) = False"
  by (simp add: initSession_def home0_def new_session_def apply_fetched_def Let_def
      split: option.splits settled.splits)

text \<open>While a turn is open \<open>isProcessing\<close> is set, and at most one turn is open.\<close>

lemma step_one_turn:
  assumes "isProcessing (app_home a) = (inflight a \<noteq> [])" and "length (inflight a) \<le> 1"
  shows "isProcessing (app_home (step e a act)) = (inflight (step e a act) \<noteq> []) \<and>
     length (inflight (step e a act)) \<le> 1"
proof (cases act)
  case (TypeInput v)
  with assms show ?thesis by (simp add: step_def)
next
  case Submit
  show ?thesis
  proof (cases "trim (chat_input a) \<noteq> [] \<and> \<not> isProcessing (app_home a) \<and> \<not> disabled (app_home a)")
    case True
    with assms have "inflight a = []" by simp
    with True Submit show ?thesis
      by (simp add: step_def handleSubmit_def Let_def begin_turn_processing split: option.splits)
  next
    case False
    with assms Submit show ?thesis
      by (auto simp: step_def handleSubmit_def Let_def)
  qed
next
  case (Deliver i)
  show ?thesis
  proof (cases "i < length (inflight a)")
    case True
    with assms(2) have i: "i = 0" and l: "length (inflight a) = 1" by auto
    then obtain t where t: "inflight a = [t]" by (cases "inflight a") auto
    with assms(1) have p: "isProcessing (app_home a)" by simp
    show ?thesis
      using Deliver i t p
      by (simp add: step_def deliver_def Let_def turn_step_home split: option.splits)
  next
    case False
    with assms Deliver show ?thesis by (simp add: step_def deliver_def)
  qed
next
  case ResetForm
  with assms show ?thesis by (simp add: step_def handleReset_def handleFileSelect_home)
next
  case (SelectFile f)
  with assms show ?thesis by (simp add: step_def Let_def handleFileSelect_home)
next
  case (ParseFiles fs pm)
  with assms show ?thesis by (simp add: step_def handleParseFiles_home)
qed

lemma run_one_turn:
  assumes "isProcessing (app_home a) = (inflight a \<noteq> [])" and "length (inflight a) \<le> 1"
  shows "isProcessing (app_home (run e a acts)) = (inflight (run e a acts) \<noteq> []) \<and>
     length (inflight (run e a acts)) \<le> 1"
  using assms
proof (induction acts arbitrary: a)
  case Nil
  then show ?case by simp
next
  case (Cons act acts)
  from step_one_turn [OF Cons.prems]
  have "isProcessing (app_home (step e a act)) = (inflight (step e a act) \<noteq> [])"
    and "length (inflight (step e a act)) \<le> 1"
    by simp_all
  then show ?case
    using Cons.IH by simp
qed

section \<open>Actions on the application\<close>

lemma handleSubmit_home:
  "sessionId (app_home (handleSubmit e a)) = sessionId (app_home a)"
  "agentSessionId (app_home (handleSubmit e a)) = agentSessionId (app_home a)"
  "userSessionId (app_home (handleSubmit e a)) = userSessionId (app_home a)"
  "length (messages (app_home a)) \<le> length (messages (app_home (handleSubmit e a)))"
  by (simp_all add: handleSubmit_def Let_def begin_turn_home)

lemma deliver_home:
  "sessionId (app_home (deliver e i a)) = sessionId (app_home a)"
  "length (messages (app_home a)) \<le> length (messages (app_home (deliver e i a)))"
  by (simp_all add: deliver_def Let_def turn_step_home)

lemma deliver_ids:
  "agentSessionId (app_home a) \<noteq> None \<Longrightarrow> agentSessionId (app_home (deliver e i a)) \<noteq> None"
  "userSessionId (app_home a) \<noteq> None \<Longrightarrow> userSessionId (app_home (deliver e i a)) \<noteq> None"
  using turn_step_ids [of "app_home a" e "inflight a ! i"]
  by (simp_all add: deliver_def Let_def)

lemma handleReset_home:
  "sessionId (handleReset e s) = sessionId s"
  "messages (handleReset e s) = messages s"
  by (simp_all add: handleReset_def handleFileSelect_home)

lemma step_session:
  "sessionId (app_home (step e a act)) = sessionId (app_home a)"
proof (cases act)
  case (SelectFile f)
  then show ?thesis by (simp add: step_def Let_def handleFileSelect_home)
qed (simp_all add: step_def handleSubmit_home deliver_home handleReset_home handleParseFiles_home)

lemma step_messages:
  "length (messages (app_home a)) \<le> length (messages (app_home (step e a act)))"
proof (cases act)
  case (SelectFile f)
  then show ?thesis by (simp add: step_def Let_def handleFileSelect_home)
qed (simp_all add: step_def handleSubmit_home deliver_home handleReset_home handleParseFiles_home)

lemma step_agent_id:
  assumes "\<not> selects_file act" and "agentSessionId (app_home a) \<noteq> None"
  shows "agentSessionId (app_home (step e a act)) \<noteq> None"
proof (cases act)
  case (Deliver i)
  with deliver_ids(1) [OF assms(2)] show ?thesis by (simp add: step_def)
qed (use assms in \<open>simp_all add: step_def handleSubmit_home handleParseFiles_home selects_file_def\<close>)

lemma step_user_id:
  assumes "\<not> selects_file act" and "userSessionId (app_home a) \<noteq> None"
  shows "userSessionId (app_home (step e a act)) \<noteq> None"
proof (cases act)
  case (Deliver i)
  with deliver_ids(2) [OF assms(2)] show ?thesis by (simp add: step_def)
qed (use assms in \<open>simp_all add: step_def handleSubmit_home handleParseFiles_home selects_file_def\<close>)

lemma run_session:
  "sessionId (app_home (run e a acts)) = sessionId (app_home a) \<and>
   length (messages (app_home a)) \<le> length (messages (app_home (run e a acts)))"
proof (induction acts arbitrary: a)
  case Nil
  show ?case by simp
next
  case (Cons act acts)
  have "sessionId (app_home (run e (step e a act) acts)) = sessionId (app_home (step e a act))"
    and "length (messages (app_home (step e a act))) \<le>
         length (messages (app_home (run e (step e a act) acts)))"
    using Cons.IH by simp_all
  with step_session [where e = e and a = a and act = act]
    step_messages [where e = e and a = a and act = act]
  show ?case by simp
qed

section \<open>Small steps and the whole turn\<close>

text \<open>Running a turn to its end is what its resumptions add up to.\<close>

lemma turn_step_run_turn:
  "turn_step e t s = (s', None) \<Longrightarrow> run_turn e t s = s'"
  "turn_step e t s = (s', Some t') \<Longrightarrow> run_turn e t s = run_turn e t' s'"
proof -
  assume a: "turn_step e t s = (s', None)"
  then have p: "t_pending t = []"
    by (simp add: turn_step_def Let_def split: list.splits)
  then have eq: "t\<lparr>t_pending := []\<rparr> = t"
    by (cases t) simp
  from a have "end_turn e t s = s'"
    by (simp add: turn_step_def p)
  then show "run_turn e t s = s'"
    by (simp add: run_turn_def p eq)
next
  assume a: "turn_step e t s = (s', Some t')"
  then obtain ev evs where p: "t_pending t = ev # evs"
    by (cases "t_pending t") (simp_all add: turn_step_def)
  let ?r = "fold_event e (t_assistant t) (t_cont t) ev (s, t_acc t)"
  from a p have s': "s' = fst ?r" and t': "t' = t\<lparr>t_acc := snd ?r, t_pending := evs\<rparr>"
    by (simp_all add: turn_step_def Let_def)
  show "run_turn e t s = run_turn e t' s'"
    by (simp add: run_turn_def Let_def p s' t')
qed

section \<open>The restore\<close>



section \<open>The claims\<close>

text \<open>The equations that evaluate the concrete sessions.\<close>

lemmas eval_defs = loaded_def handleFileSelect_def initSession_def home0_def new_session_def
  demo_env_def createMessage_def truthy_str_def handleSendMessage_def begin_turn_def run_turn_def
  end_turn_def finalize_ok_def finalize_err_def fold_event_def on_complete_def on_pdf_ready_def
  createLogEntry_def mk_entry_def update_log_def mark_complete_def mark_error_def render_def
  fill_args_def is_continuation_def placeholder_def acc0_def blank_def str_or_def num_or_zero_def
  object_keys_def fault_message_def show_nat.simps digit_char_def Let_def

text \<open>The equations that evaluate the actions.\<close>

lemmas app_defs = app0_def step_def handleSubmit_def disabled_def trim_def is_space_def
  deliver_def turn_step_def handleReset_def

subsection \<open>C1\<close>

text \<open>
  Claim C1 wants the placeholder finalized with status \<open>error\<close> whenever the
  stream held an \<open>error\<close> event. The code does otherwise: on a stream that
  delivers a \<open>complete\<close> event, then an \<open>error\<close> event with the text
  \<open>boom\<close>, and then closes, the log holds the error entry and the content is the
  error text, but the placeholder is finalized with status \<open>complete\<close>. Only a
  stream that throws gives status \<open>error\<close> (\<open>handleSendMessage_last_ok\<close>,
  \<open>handleSendMessage_last_err\<close>).
\<close>

theorem error_event_finalized_complete:
  "msg_status (last (messages (handleSendMessage (demo_env (\<lambda>n. error_stream))
      (loaded (demo_env (\<lambda>n. error_stream))) ''hi''))) = Some Complete \<and>
   msg_content (last (messages (handleSendMessage (demo_env (\<lambda>n. error_stream))
      (loaded (demo_env (\<lambda>n. error_stream))) ''hi''))) = ''boom'' \<and>
   agentLog (last (messages (handleSendMessage (demo_env (\<lambda>n. error_stream))
      (loaded (demo_env (\<lambda>n. error_stream))) ''hi''))) =
     Some [\<lparr>entry_id = ''4'', entry_type = CompleteEntry, entry_timestamp = 4,
            entry_content = ''Completed - filled 1 fields'', entry_details = None\<rparr>,
           \<lparr>entry_id = ''5'', entry_type = ErrorEntry, entry_timestamp = 5,
            entry_content = ''boom'', entry_details = None\<rparr>]"
  by (simp add: eval_defs error_stream_def)

subsection \<open>C2\<close>

text \<open>
  Claim C2, as amended. A turn on a loaded file opens exactly one stream. Its
  continuation flag is true iff the agent session id is set (and not empty) and a
  filled PDF is held; the filled PDF is passed only when the flag is true; the
  applied edits, the agent session id and the user session id are passed as the
  state holds them, whether the turn continues or not.
\<close>

theorem stream_opened_with_state:
  assumes "pdfFile s = Some f"
  shows "opened (handleSendMessage e s c) = opened s @
     [\<lparr>arg_file = f, instructions = c,
       arg_filledPdfBytes =
         (if truthy_str (agentSessionId s) \<and> filledPdfBytes s \<noteq> None then filledPdfBytes s
          else None),
       isContinuation = (truthy_str (agentSessionId s) \<and> filledPdfBytes s \<noteq> None),
       previousEdits = appliedEdits s, resumeSessionId = agentSessionId s,
       arg_userSessionId = userSessionId s\<rparr>]"
  by (simp add: handleSendMessage_opened [OF assms] fill_args_def is_continuation_def)

theorem stream_opened_with_state_witness:
  "pdfFile (loaded (demo_env two_turns)) = Some ''form.pdf'' \<and>
   opened (handleSendMessage (demo_env two_turns) (loaded (demo_env two_turns))
      ''My name is John Doe'') =
     [\<lparr>arg_file = ''form.pdf'', instructions = ''My name is John Doe'',
       arg_filledPdfBytes = None, isContinuation = False, previousEdits = None,
       resumeSessionId = None, arg_userSessionId = None\<rparr>]"
proof -
  have h: "pdfFile (loaded (demo_env two_turns)) = Some ''form.pdf''"
    by (simp add: eval_defs two_turns_def first_turn_def second_turn_def)
  have st: "opened (loaded (demo_env two_turns)) = []"
    "agentSessionId (loaded (demo_env two_turns)) = None"
    "appliedEdits (loaded (demo_env two_turns)) = None"
    "userSessionId (loaded (demo_env two_turns)) = None"
    by (simp_all add: eval_defs two_turns_def first_turn_def second_turn_def)
  show ?thesis
    using stream_opened_with_state [OF h, of "demo_env two_turns" "''My name is John Doe''"] h
    by (simp add: st truthy_str_def)
qed

text \<open>
  Against C2 as stated: the first turn ends with an agent session id and one applied
  edit but no filled PDF, so the second turn is not a continuation; its stream is
  opened with that agent session id and those edits all the same.
\<close>

theorem fresh_turn_passes_session_and_edits:
  "opened (handleSendMessage (demo_env two_turns)
      (handleSendMessage (demo_env two_turns) (loaded (demo_env two_turns))
         ''My name is John Doe'') ''Also fill the date'') ! 1 =
     \<lparr>arg_file = ''form.pdf'', instructions = ''Also fill the date'', arg_filledPdfBytes = None,
      isContinuation = False, previousEdits = Some [(''name'', JStr ''John Doe'')],
      resumeSessionId = Some ''abc'', arg_userSessionId = None\<rparr>"
  by (simp add: eval_defs two_turns_def first_turn_def second_turn_def)

subsection \<open>C3\<close>

text \<open>
  Claim C3. The chat panel hands an instruction to \<open>handleSendMessage\<close> only when
  a file with fields is loaded and no turn is processing; otherwise the submission
  changes nothing: no stream is opened, no message is appended, no turn starts, and the
  text stays in the input. \<open>handleSendMessage\<close> itself, called without a file, opens
  no stream and starts no turn; it appends one system message and no user or
  assistant message. From the first render on, whatever the user does and whenever
  events arrive, at most one turn has its stream open, and \<open>isProcessing\<close> is true
  exactly while one has.
\<close>

theorem rejected_submission_changes_nothing:
  "(disabled (app_home a) \<or> isProcessing (app_home a) \<longrightarrow> handleSubmit e a = a) \<and>
   (pdfFile s = None \<longrightarrow>
      snd (begin_turn e s c) = None \<and>
      opened (handleSendMessage e s c) = opened s \<and>
      messages (handleSendMessage e s c) =
        messages s @ [createMessage e (draws s) System ''Please upload a PDF first'' None]) \<and>
   length (inflight (run e (app0 e url) acts)) \<le> 1 \<and>
   isProcessing (app_home (run e (app0 e url) acts)) = (inflight (run e (app0 e url) acts) \<noteq> [])"
proof -
  have 1: "disabled (app_home a) \<or> isProcessing (app_home a) \<longrightarrow> handleSubmit e a = a"
    by (auto simp: handleSubmit_def Let_def)
  have 2: "pdfFile s = None \<longrightarrow>
      snd (begin_turn e s c) = None \<and>
      opened (handleSendMessage e s c) = opened s \<and>
      messages (handleSendMessage e s c) =
        messages s @ [createMessage e (draws s) System ''Please upload a PDF first'' None]"
    by (simp add: handleSendMessage_def begin_turn_def)
  have i: "isProcessing (app_home (app0 e url)) = (inflight (app0 e url) \<noteq> [])"
    "length (inflight (app0 e url)) \<le> 1"
    by (simp_all add: app0_def initSession_idle)
  from run_one_turn [OF i] 1 2 show ?thesis by blast
qed

theorem rejected_submission_changes_nothing_witness:
  "isProcessing (app_home (run (demo_env two_turns) (app0 (demo_env two_turns) None)
      [SelectFile ''form.pdf'', TypeInput ''one'', Submit, TypeInput ''two''])) \<and>
   handleSubmit (demo_env two_turns)
     (run (demo_env two_turns) (app0 (demo_env two_turns) None)
        [SelectFile ''form.pdf'', TypeInput ''one'', Submit, TypeInput ''two'']) =
     run (demo_env two_turns) (app0 (demo_env two_turns) None)
        [SelectFile ''form.pdf'', TypeInput ''one'', Submit, TypeInput ''two''] \<and>
   pdfFile (home0 None) = None \<and>
   opened (handleSendMessage (demo_env two_turns) (home0 None) ''one'') = []"
proof -
  let ?e = "demo_env two_turns"
  let ?a = "run ?e (app0 ?e None) [SelectFile ''form.pdf'', TypeInput ''one'', Submit, TypeInput ''two'']"
  have p: "isProcessing (app_home ?a)"
    by (simp add: app_defs eval_defs two_turns_def first_turn_def second_turn_def)
  have n: "pdfFile (home0 None) = None" "opened (home0 None) = []"
    by (simp_all add: home0_def)
  show ?thesis
    using rejected_submission_changes_nothing [of ?a ?e "home0 None" "''one''" None "[]"] p n
    by simp
qed

subsection \<open>C4\<close>



subsection \<open>C5\<close>

text \<open>
  Claim C5, as amended. When the stream of a turn throws, the placeholder gets the
  status \<open>error\<close> and the content \<open>Error: \<close> followed by the fault's message
  (\<open>Unknown error\<close> for a thrown value that is no \<open>Error\<close>), and one synthetic
  error entry is appended to its log in every case: the log is the entries of the
  folded events followed by that entry, so it holds one error entry per \<open>error\<close>
  event of the stream plus one.
\<close>

theorem thrown_fault_appends_error_entry:
  assumes "pdfFile s = Some f"
    and "streamAgentFill e (length (opened s)) (fill_args s f c) =
           \<lparr>stream_events = evs, stream_end = Throws flt\<rparr>"
  shows "msg_status (last (messages (handleSendMessage e s c))) = Some Error \<and>
     msg_content (last (messages (handleSendMessage e s c))) = ''Error: '' @ fault_message flt \<and>
     agentLog (last (messages (handleSendMessage e s c))) =
       Some (log_entries e (draws s + 2) evs @
         [\<lparr>entry_id = generateId e (draws s + 2 + length evs), entry_type = ErrorEntry,
           entry_timestamp = now e (draws s + 2 + length evs),
           entry_content = fault_message flt, entry_details = None\<rparr>]) \<and>
     error_entries (log_entries e (draws s + 2) evs @
         [\<lparr>entry_id = generateId e (draws s + 2 + length evs), entry_type = ErrorEntry,
           entry_timestamp = now e (draws s + 2 + length evs),
           entry_content = fault_message flt, entry_details = None\<rparr>]) =
       Suc (length (filter (\<lambda>ev. ev_type ev = ErrorEv) evs))"
  by (simp add: handleSendMessage_last_err [OF assms] mk_entry_def error_entries_simps
      error_entries_log_entries)

theorem thrown_fault_appends_error_entry_witness:
  "pdfFile (loaded (demo_env (\<lambda>n. broken_stream))) = Some ''form.pdf'' \<and>
   msg_status (last (messages (handleSendMessage (demo_env (\<lambda>n. broken_stream))
      (loaded (demo_env (\<lambda>n. broken_stream))) ''hi''))) = Some Error \<and>
   msg_content (last (messages (handleSendMessage (demo_env (\<lambda>n. broken_stream))
      (loaded (demo_env (\<lambda>n. broken_stream))) ''hi''))) = ''Error: network''"
proof -
  let ?e = "demo_env (\<lambda>n. broken_stream)"
  have h: "pdfFile (loaded ?e) = Some ''form.pdf''"
    by (simp add: eval_defs broken_stream_def)
  have st: "streamAgentFill ?e (length (opened (loaded ?e))) (fill_args (loaded ?e) ''form.pdf'' ''hi'') =
      \<lparr>stream_events = [(blank ErrorEv)\<lparr>ev_error := Some ''boom''\<rparr>],
       stream_end = Throws (ErrorObj ''network'')\<rparr>"
    by (simp add: demo_env_def broken_stream_def)
  show ?thesis
    using thrown_fault_appends_error_entry [OF h st] h
    by (simp add: fault_message_def)
qed

text \<open>
  Against C5 as stated: the stream delivers an \<open>error\<close> event and then throws; the
  log of the placeholder ends with two error entries, the one of the event and the
  synthetic one.
\<close>

theorem error_entry_duplicated:
  "agentLog (last (messages (handleSendMessage (demo_env (\<lambda>n. broken_stream))
      (loaded (demo_env (\<lambda>n. broken_stream))) ''hi''))) =
     Some [\<lparr>entry_id = ''4'', entry_type = ErrorEntry, entry_timestamp = 4,
            entry_content = ''boom'', entry_details = None\<rparr>,
           \<lparr>entry_id = ''5'', entry_type = ErrorEntry, entry_timestamp = 5,
            entry_content = ''network'', entry_details = None\<rparr>]"
  by (simp add: eval_defs broken_stream_def)

subsection \<open>C6\<close>

text \<open>
  Claim C6, as amended. After a turn whose stream closed, \<open>appliedEdits\<close> is the
  edits record of the last \<open>complete\<close> event that carried one, replacing the
  record held before as a whole; it is unchanged when no \<open>complete\<close> event carried
  one, and when the stream threw. So the keys held before the turn are all still held
  after it iff the stream threw, or no record was reported, or the reported record
  holds them all.
\<close>

theorem applied_edits_replaced:
  assumes "pdfFile s = Some f"
    and "streamAgentFill e (length (opened s)) (fill_args s f c) =
           \<lparr>stream_events = evs, stream_end = en\<rparr>"
  shows "appliedEdits (handleSendMessage e s c) =
       (case en of
          Throws flt \<Rightarrow> appliedEdits s
        | EndOfStream \<Rightarrow> (case reported_edits evs of None \<Rightarrow> appliedEdits s | Some x \<Rightarrow> Some x)) \<and>
     (held_keys (appliedEdits s) \<subseteq> held_keys (appliedEdits (handleSendMessage e s c))) =
       (case en of
          Throws flt \<Rightarrow> True
        | EndOfStream \<Rightarrow>
            (case reported_edits evs of
               None \<Rightarrow> True
             | Some x \<Rightarrow> held_keys (appliedEdits s) \<subseteq> set (object_keys x)))"
proof (cases en)
  case EndOfStream
  with assms(2) show ?thesis
    by (simp add: handleSendMessage_adopts_ok(1) [OF assms(1)] held_keys_def
        split: option.splits)
next
  case (Throws flt)
  with assms(2) have "stream_end (streamAgentFill e (length (opened s)) (fill_args s f c)) =
      Throws flt"
    by simp
  with Throws show ?thesis
    by (simp add: handleSendMessage_keeps_err(1) [OF assms(1)])
qed

theorem applied_edits_replaced_witness:
  "pdfFile (loaded (demo_env two_turns)) = Some ''form.pdf'' \<and>
   appliedEdits (handleSendMessage (demo_env two_turns) (loaded (demo_env two_turns))
      ''My name is John Doe'') = Some [(''name'', JStr ''John Doe'')]"
proof -
  let ?e = "demo_env two_turns"
  have h: "pdfFile (loaded ?e) = Some ''form.pdf''"
    by (simp add: eval_defs two_turns_def first_turn_def second_turn_def)
  have st: "streamAgentFill ?e (length (opened (loaded ?e)))
      (fill_args (loaded ?e) ''form.pdf'' ''My name is John Doe'') =
      \<lparr>stream_events = stream_events first_turn, stream_end = stream_end first_turn\<rparr>"
    by (simp add: eval_defs two_turns_def first_turn_def second_turn_def)
  have rp: "reported_edits (stream_events first_turn) = Some [(''name'', JStr ''John Doe'')]"
    "stream_end first_turn = EndOfStream"
    by (simp_all add: reported_edits_def first_turn_def blank_def)
  from applied_edits_replaced [OF h st]
  have "appliedEdits (handleSendMessage ?e (loaded ?e) ''My name is John Doe'') =
      (case stream_end first_turn of
         Throws flt \<Rightarrow> appliedEdits (loaded ?e)
       | EndOfStream \<Rightarrow>
           (case reported_edits (stream_events first_turn) of
              None \<Rightarrow> appliedEdits (loaded ?e) | Some x \<Rightarrow> Some x))"
    by blast
  with h show ?thesis
    by (simp add: rp)
qed

text \<open>
  Against C6 as stated: after the first turn the key \<open>name\<close> is held; the second
  turn completes with a record that holds \<open>date\<close> only, and \<open>name\<close> is gone.
\<close>

theorem applied_edits_key_lost:
  "''name'' \<in> held_keys (appliedEdits (handleSendMessage (demo_env two_turns)
      (loaded (demo_env two_turns)) ''My name is John Doe'')) \<and>
   ''name'' \<notin> held_keys (appliedEdits (handleSendMessage (demo_env two_turns)
      (handleSendMessage (demo_env two_turns) (loaded (demo_env two_turns))
         ''My name is John Doe'') ''Also fill the date'')) \<and>
   appliedEdits (handleSendMessage (demo_env two_turns)
      (handleSendMessage (demo_env two_turns) (loaded (demo_env two_turns))
         ''My name is John Doe'') ''Also fill the date'') = Some [(''date'', JStr ''2024-01-01'')]"
  by (simp add: eval_defs two_turns_def first_turn_def second_turn_def held_keys_def)

subsection \<open>C7\<close>

text \<open>
  Claim C7, as amended. No action on the running application reassigns the
  \<open>sessionId\<close>, and none shortens the message list. An agent session id or user
  session id that is set stays set under every action except those that select a
  file. A turn whose stream closed replaces each id by the last non-empty one its
  \<open>complete\<close> events carried and keeps it where none was carried; a turn whose
  stream threw keeps both. \<open>handleParseFiles\<close> keeps the agent session id, keeps
  a user session id that is set and mints one where none is. "New Form" and an upload
  both clear the two ids. "New Form" (when no turn is processing) clears the file, the
  fields, both PDFs, the edits, the two ids and the context files, and it leaves the
  \<open>sessionId\<close> and the messages as they are.
\<close>

theorem session_identifiers_lifecycle:
  "sessionId (app_home (run e a acts)) = sessionId (app_home a) \<and>
   length (messages (app_home a)) \<le> length (messages (app_home (run e a acts))) \<and>
   (\<not> selects_file act \<longrightarrow>
      (agentSessionId (app_home a) \<noteq> None \<longrightarrow> agentSessionId (app_home (step e a act)) \<noteq> None) \<and>
      (userSessionId (app_home a) \<noteq> None \<longrightarrow> userSessionId (app_home (step e a act)) \<noteq> None)) \<and>
   (pdfFile b = Some f \<and>
    streamAgentFill e (length (opened b)) (fill_args b f c) =
      \<lparr>stream_events = evs, stream_end = en\<rparr> \<longrightarrow>
      agentSessionId (handleSendMessage e b c) =
        (case en of
           Throws flt \<Rightarrow> agentSessionId b
         | EndOfStream \<Rightarrow>
             (case reported_id session_id evs of None \<Rightarrow> agentSessionId b | Some x \<Rightarrow> Some x)) \<and>
      userSessionId (handleSendMessage e b c) =
        (case en of
           Throws flt \<Rightarrow> userSessionId b
         | EndOfStream \<Rightarrow>
             (case reported_id user_session_id evs of None \<Rightarrow> userSessionId b
              | Some x \<Rightarrow> Some x))) \<and>
   agentSessionId (handleParseFiles e s fs pm) = agentSessionId s \<and>
   userSessionId (handleParseFiles e s fs pm) =
     (if truthy_str (userSessionId s) then userSessionId s
      else Some (generateId e (draws s) @ ''-'' @ show_nat (now e (draws s)))) \<and>
   agentSessionId (handleFileSelect e s sel) = None \<and>
   userSessionId (handleFileSelect e s sel) = None \<and>
   (\<not> isProcessing s \<longrightarrow>
      handleReset e s =
        s\<lparr>pdfFile := None, formFields := [], originalPdfBytes := None, filledPdfBytes := None,
          pdfDisplayMode := Original, appliedEdits := None, agentSessionId := None,
          userSessionId := None, contextFiles := []\<rparr>)"
proof -
  have r: "\<not> isProcessing s \<longrightarrow>
      handleReset e s =
        s\<lparr>pdfFile := None, formFields := [], originalPdfBytes := None, filledPdfBytes := None,
          pdfDisplayMode := Original, appliedEdits := None, agentSessionId := None,
          userSessionId := None, contextFiles := []\<rparr>"
    by (simp add: handleReset_def handleFileSelect_def)
  have i: "\<not> selects_file act \<longrightarrow>
      (agentSessionId (app_home a) \<noteq> None \<longrightarrow> agentSessionId (app_home (step e a act)) \<noteq> None) \<and>
      (userSessionId (app_home a) \<noteq> None \<longrightarrow> userSessionId (app_home (step e a act)) \<noteq> None)"
    using step_agent_id [where e = e and a = a and act = act]
      step_user_id [where e = e and a = a and act = act]
    by blast
  have t: "pdfFile b = Some f \<and>
    streamAgentFill e (length (opened b)) (fill_args b f c) =
      \<lparr>stream_events = evs, stream_end = en\<rparr> \<longrightarrow>
      agentSessionId (handleSendMessage e b c) =
        (case en of
           Throws flt \<Rightarrow> agentSessionId b
         | EndOfStream \<Rightarrow>
             (case reported_id session_id evs of None \<Rightarrow> agentSessionId b | Some x \<Rightarrow> Some x)) \<and>
      userSessionId (handleSendMessage e b c) =
        (case en of
           Throws flt \<Rightarrow> userSessionId b
         | EndOfStream \<Rightarrow>
             (case reported_id user_session_id evs of None \<Rightarrow> userSessionId b
              | Some x \<Rightarrow> Some x))"
  proof (intro impI, elim conjE)
    assume fl: "pdfFile b = Some f"
      and st: "streamAgentFill e (length (opened b)) (fill_args b f c) =
        \<lparr>stream_events = evs, stream_end = en\<rparr>"
    show "agentSessionId (handleSendMessage e b c) =
        (case en of
           Throws flt \<Rightarrow> agentSessionId b
         | EndOfStream \<Rightarrow>
             (case reported_id session_id evs of None \<Rightarrow> agentSessionId b | Some x \<Rightarrow> Some x)) \<and>
      userSessionId (handleSendMessage e b c) =
        (case en of
           Throws flt \<Rightarrow> userSessionId b
         | EndOfStream \<Rightarrow>
             (case reported_id user_session_id evs of None \<Rightarrow> userSessionId b
              | Some x \<Rightarrow> Some x))"
    proof (cases en)
      case EndOfStream
      with st show ?thesis
        by (simp add: handleSendMessage_adopts_ok [OF fl])
    next
      case (Throws flt)
      with st have "stream_end (streamAgentFill e (length (opened b)) (fill_args b f c)) =
          Throws flt"
        by simp
      with Throws show ?thesis
        by (simp add: handleSendMessage_keeps_err [OF fl])
    qed
  qed
  from run_session [where e = e and a = a and acts = acts] i t r show ?thesis
    by (simp add: handleFileSelect_home handleParseFiles_home)
qed

theorem session_identifiers_lifecycle_witness:
  "\<not> selects_file Submit \<and>
   agentSessionId (handleSendMessage (demo_env two_turns) (loaded (demo_env two_turns))
      ''My name is John Doe'') = Some ''abc'' \<and>
   agentSessionId (app_home (step (demo_env two_turns)
      \<lparr>app_home = handleSendMessage (demo_env two_turns) (loaded (demo_env two_turns))
          ''My name is John Doe'',
       chat_input = ''Also fill the date'', inflight = []\<rparr> Submit)) \<noteq> None \<and>
   \<not> isProcessing (handleSendMessage (demo_env two_turns) (loaded (demo_env two_turns))
      ''My name is John Doe'') \<and>
   agentSessionId (handleReset (demo_env two_turns)
      (handleSendMessage (demo_env two_turns) (loaded (demo_env two_turns))
         ''My name is John Doe'')) = None"
proof -
  let ?e = "demo_env two_turns"
  let ?b = "loaded ?e"
  let ?s = "handleSendMessage ?e ?b ''My name is John Doe''"
  let ?a = "\<lparr>app_home = ?s, chat_input = ''Also fill the date'', inflight = []\<rparr>"
  have h: "\<not> selects_file Submit" by (simp add: selects_file_def)
  have fl: "pdfFile ?b = Some ''form.pdf''"
    by (simp add: eval_defs two_turns_def first_turn_def second_turn_def)
  have st: "streamAgentFill ?e (length (opened ?b)) (fill_args ?b ''form.pdf'' ''My name is John Doe'') =
      \<lparr>stream_events = stream_events first_turn, stream_end = stream_end first_turn\<rparr>"
    by (simp add: eval_defs two_turns_def first_turn_def second_turn_def)
  have rp: "reported_id session_id (stream_events first_turn) = Some ''abc''"
    "stream_end first_turn = EndOfStream"
    by (simp_all add: reported_id_def first_turn_def blank_def truthy_str_def)
  have g: "\<not> isProcessing ?s"
    by (simp add: eval_defs two_turns_def first_turn_def second_turn_def)
  note T = session_identifiers_lifecycle
      [where e = ?e and a = ?a and acts = "[]" and act = Submit and s = ?s and sel = None
         and b = ?b and f = "''form.pdf''" and c = "''My name is John Doe''"
         and evs = "stream_events first_turn" and en = "stream_end first_turn"]
  from T fl st have "agentSessionId ?s =
      (case stream_end first_turn of
         Throws flt \<Rightarrow> agentSessionId ?b
       | EndOfStream \<Rightarrow>
           (case reported_id session_id (stream_events first_turn) of
              None \<Rightarrow> agentSessionId ?b | Some x \<Rightarrow> Some x))"
    by blast
  then have A: "agentSessionId ?s = Some ''abc''"
    by (simp add: rp)
  then have "agentSessionId (app_home ?a) \<noteq> None" by simp
  with T h have B: "agentSessionId (app_home (step ?e ?a Submit)) \<noteq> None"
    by blast
  from T have C: "agentSessionId (handleFileSelect ?e ?s None) = None"
    by blast
  from g C have D: "agentSessionId (handleReset ?e ?s) = None"
    by (simp add: handleReset_def)
  from h A B g D show ?thesis by blast
qed

text \<open>
  Against C7 as stated: after a completed first turn, "New Form" clears the agent
  session id, and the session keeps its \<open>sessionId\<close> and all its messages.
\<close>

theorem reset_keeps_session_and_messages:
  "agentSessionId (handleSendMessage (demo_env two_turns) (loaded (demo_env two_turns))
      ''My name is John Doe'') = Some ''abc'' \<and>
   agentSessionId (handleReset (demo_env two_turns)
      (handleSendMessage (demo_env two_turns) (loaded (demo_env two_turns))
         ''My name is John Doe'')) = None \<and>
   sessionId (handleReset (demo_env two_turns)
      (handleSendMessage (demo_env two_turns) (loaded (demo_env two_turns))
         ''My name is John Doe'')) = ''0'' \<and>
   sessionId (handleSendMessage (demo_env two_turns) (loaded (demo_env two_turns))
      ''My name is John Doe'') = ''0'' \<and>
   map msg_content (messages (handleReset (demo_env two_turns)
      (handleSendMessage (demo_env two_turns) (loaded (demo_env two_turns))
         ''My name is John Doe''))) =
     [''Detected 1 fillable fields in the PDF'', ''My name is John Doe'',
      ''Successfully filled 1 form fields.'']"
  by (simp add: eval_defs two_turns_def first_turn_def second_turn_def handleReset_def)

subsection \<open>C8\<close>

text \<open>
  Claim C8, as amended. After a turn whose stream closed, the agent session id and the
  user session id are the last non-empty ones its \<open>complete\<close> events carried, and
  the ones held before where none was carried. The handler itself calls
  \<open>saveSessionToStorage\<close> exactly when a user session id was carried: once, with
  that id and a snapshot of the values the handler closed over (the messages as they
  were before the turn, the filled PDF the stream rendered or else the one held
  before). A turn that brings an agent session id alone saves nothing itself.
\<close>

theorem identifiers_adopted_and_saved:
  assumes "pdfFile s = Some f"
    and "streamAgentFill e (length (opened s)) (fill_args s f c) =
           \<lparr>stream_events = evs, stream_end = EndOfStream\<rparr>"
  shows "agentSessionId (handleSendMessage e s c) =
       (case reported_id session_id evs of None \<Rightarrow> agentSessionId s | Some x \<Rightarrow> Some x) \<and>
     userSessionId (handleSendMessage e s c) =
       (case reported_id user_session_id evs of None \<Rightarrow> userSessionId s | Some x \<Rightarrow> Some x) \<and>
     saved (handleSendMessage e s c) =
       saved s @
       (case reported_id user_session_id evs of
          None \<Rightarrow> []
        | Some u \<Rightarrow>
            [(\<lparr>snap_id = sessionId s, originalPdf = pdfFile s,
               snap_filledPdfBytes =
                 (case reported_pdf e evs of Some b \<Rightarrow> Some b | None \<Rightarrow> filledPdfBytes s),
               snap_fields = formFields s, snap_messages = messages s,
               snap_isProcessing = False\<rparr>, Some u)])"
  by (simp add: handleSendMessage_adopts_ok [OF assms])

theorem identifiers_adopted_and_saved_witness:
  "pdfFile (handleSendMessage (demo_env two_turns) (loaded (demo_env two_turns))
      ''My name is John Doe'') = Some ''form.pdf'' \<and>
   userSessionId (handleSendMessage (demo_env two_turns)
      (handleSendMessage (demo_env two_turns) (loaded (demo_env two_turns))
         ''My name is John Doe'') ''Also fill the date'') = Some ''u1'' \<and>
   map snd (saved (handleSendMessage (demo_env two_turns)
      (handleSendMessage (demo_env two_turns) (loaded (demo_env two_turns))
         ''My name is John Doe'') ''Also fill the date'')) = [Some ''u1'']"
proof -
  let ?e = "demo_env two_turns"
  let ?s = "handleSendMessage ?e (loaded ?e) ''My name is John Doe''"
  have h: "pdfFile ?s = Some ''form.pdf''"
    by (simp add: eval_defs two_turns_def first_turn_def second_turn_def)
  have o: "length (opened ?s) = 1" "saved ?s = []"
    by (simp_all add: eval_defs two_turns_def first_turn_def second_turn_def)
  have st: "streamAgentFill ?e (length (opened ?s))
      (fill_args ?s ''form.pdf'' ''Also fill the date'') =
      \<lparr>stream_events = [(blank CompleteEv)\<lparr>applied_count := Some 1,
                          applied_edits := Some [(''date'', JStr ''2024-01-01'')],
                          user_session_id := Some ''u1''\<rparr>],
       stream_end = EndOfStream\<rparr>"
    unfolding o by (simp add: demo_env_def two_turns_def second_turn_def)
  show ?thesis
    using identifiers_adopted_and_saved [OF h st] h
    by (simp add: o reported_id_def blank_def truthy_str_def)
qed

text \<open>
  Against C8 as stated: the first turn completes with the agent session id \<open>abc\<close>
  and no user session id. The id is adopted, and the handler has saved nothing.
\<close>

theorem agent_id_adopted_unsaved:
  "agentSessionId (handleSendMessage (demo_env two_turns) (loaded (demo_env two_turns))
      ''My name is John Doe'') = Some ''abc'' \<and>
   saved (handleSendMessage (demo_env two_turns) (loaded (demo_env two_turns))
      ''My name is John Doe'') = []"
  by (simp add: eval_defs two_turns_def first_turn_def second_turn_def)

subsection \<open>C9\<close>

text \<open>
  Claim C9. Folding a \<open>tool_use\<close> event into the placeholder (the last message,
  whose id the turn holds) appends to its log: nothing when the friendly list is
  missing or empty; for one description, one tool-call entry whose content is the
  description without \<open>**\<close> and which has no details; for \<open>n > 1\<close> descriptions,
  one tool-call entry with content \<open>Filling n fields\<close> and, as details, the
  descriptions without \<open>**\<close>, joined by a comma and a space.
\<close>

theorem tool_use_appends_one_entry:
  assumes "ev_type ev = ToolUse"
    and "messages s = ms @ [m]"
    and "msg_id m = aid"
    and "agentLog m = Some l"
  shows "agentLog (last (messages (fst (fold_event e aid cont ev (s, a))))) =
     Some (l @
       (case ev_friendly ev of
          None \<Rightarrow> []
        | Some [] \<Rightarrow> []
        | Some [d] \<Rightarrow>
            [\<lparr>entry_id = generateId e (draws s), entry_type = ToolCall,
              entry_timestamp = now e (draws s), entry_content = strip_emphasis d,
              entry_details = None\<rparr>]
        | Some ds \<Rightarrow>
            [\<lparr>entry_id = generateId e (draws s), entry_type = ToolCall,
              entry_timestamp = now e (draws s),
              entry_content = ''Filling '' @ show_nat (length ds) @ '' fields'',
              entry_details = Some (join '', '' (map strip_emphasis ds))\<rparr>]))"
proof -
  have "messages (fst (fold_event e aid cont ev (s, a))) =
      map (update_log aid (createLogEntry (generateId e (draws s)) (now e (draws s)) ev))
        (ms @ [m])"
    using assms(2) by (simp add: fold_event_messages)
  then have "last (messages (fst (fold_event e aid cont ev (s, a)))) =
      update_log aid (createLogEntry (generateId e (draws s)) (now e (draws s)) ev) m"
    by simp
  then show ?thesis
    using assms(1,3,4)
    by (simp add: update_log_def createLogEntry_def mk_entry_def Let_def
        split: option.splits list.splits)
qed

theorem tool_use_appends_one_entry_witness:
  "ev_type ((blank ToolUse)\<lparr>ev_friendly := Some [''**Set** name field'', ''**Set** date field'']\<rparr>)
     = ToolUse \<and>
   agentLog (last (messages (fst (fold_event (demo_env (\<lambda>n. first_turn)) ''3'' False
       ((blank ToolUse)\<lparr>ev_friendly := Some [''**Set** name field'', ''**Set** date field'']\<rparr>)
       (fst (begin_turn (demo_env (\<lambda>n. first_turn)) (loaded (demo_env (\<lambda>n. first_turn))) ''hi''),
        acc0))))) =
     Some [\<lparr>entry_id = ''4'', entry_type = ToolCall, entry_timestamp = 4,
            entry_content = ''Filling 2 fields'',
            entry_details = Some ''Set name field, Set date field''\<rparr>]"
proof -
  let ?e = "demo_env (\<lambda>n. first_turn)"
  let ?ev = "(blank ToolUse)\<lparr>ev_friendly := Some [''**Set** name field'', ''**Set** date field'']\<rparr>"
  let ?s = "fst (begin_turn ?e (loaded ?e) ''hi'')"
  have h1: "ev_type ?ev = ToolUse" by (simp add: blank_def)
  have h2: "messages ?s =
      [createMessage ?e 1 System ''Detected 1 fillable fields in the PDF'' None,
       createMessage ?e 2 User ''hi'' None] @ [placeholder ?e 3]"
    by (simp add: eval_defs first_turn_def)
  have h3: "msg_id (placeholder ?e 3) = ''3''" by (simp add: eval_defs first_turn_def)
  have h4: "agentLog (placeholder ?e 3) = Some []" by (simp add: eval_defs first_turn_def)
  have d: "draws ?s = 4" by (simp add: eval_defs first_turn_def)
  have g: "generateId ?e 4 = ''4''" "now ?e 4 = 4" "show_nat (Suc (Suc 0)) = ''2''"
    by (simp_all add: demo_env_def show_nat.simps digit_char_def)
  have fr: "ev_friendly ?ev = Some [''**Set** name field'', ''**Set** date field'']"
    by simp
  show ?thesis
    using tool_use_appends_one_entry [OF h1 h2 h3 h4, of ?e False acc0] h1
    by (simp add: d g fr)
qed

subsection \<open>C10\<close>

text \<open>
  Claim C10 wants \<open>isProcessing\<close> false and the status message empty when a
  started turn has ended. The \<open>finally\<close> block sets both, and \<open>isProcessing\<close>
  is false after every turn (\<open>run_turn_home\<close>). The status message is not always
  empty: the updater of the last log entry sets it to the entry's text, and when React
  runs that updater only after the handler has returned, the text stays. Here the
  stream delivers an \<open>error\<close> event with the text \<open>boom\<close> and then throws; the
  turn ends with \<open>isProcessing\<close> false and the status message \<open>boom\<close>. Under a
  schedule that runs the updaters after every event the same turn ends with the empty
  status message (\<open>run_turn_status_rendered\<close>).
\<close>

theorem status_message_outlives_turn:
  "pdfFile (loaded (demo_env (\<lambda>n. broken_stream))) = Some ''form.pdf'' \<and>
   isProcessing (handleSendMessage (demo_env (\<lambda>n. broken_stream))
      (loaded (demo_env (\<lambda>n. broken_stream))) ''hi'') = False \<and>
   statusMessage (handleSendMessage (demo_env (\<lambda>n. broken_stream))
      (loaded (demo_env (\<lambda>n. broken_stream))) ''hi'') = ''boom'' \<and>
   statusMessage (handleSendMessage ((demo_env (\<lambda>n. broken_stream))\<lparr>rendered := (\<lambda>k. True)\<rparr>)
      (loaded ((demo_env (\<lambda>n. broken_stream))\<lparr>rendered := (\<lambda>k. True)\<rparr>)) ''hi'') = []"
  by (simp add: eval_defs broken_stream_def)

end
